theory Spec2Isabelle
  imports Complex_Main "HOL-Library.AList"
begin

section \<open>Python values\<close>

text \<open>
  A Python float is modelled by the value it denotes: a real number, one of the two
  infinities, or NaN. A decimal literal of the source and a string given to \<open>float()\<close>
  denote their decimal value, and arithmetic on finite values is the exact operation on
  the reals: rounding to 53 bits and overflow to an infinity are not modelled.
  Comparisons are exact in Python as well, and NaN compares false with everything.
\<close>

datatype pyfloat = Fin real | PInf | NInf | NaN

fun fadd :: "pyfloat \<Rightarrow> pyfloat \<Rightarrow> pyfloat" where
  "fadd NaN y = NaN"
| "fadd x NaN = NaN"
| "fadd PInf NInf = NaN"
| "fadd NInf PInf = NaN"
| "fadd PInf y = PInf"
| "fadd x PInf = PInf"
| "fadd NInf y = NInf"
| "fadd x NInf = NInf"
| "fadd (Fin a) (Fin b) = Fin (a + b)"

fun fneg :: "pyfloat \<Rightarrow> pyfloat" where
  "fneg (Fin a) = Fin (- a)"
| "fneg PInf = NInf"
| "fneg NInf = PInf"
| "fneg NaN = NaN"

definition fsub :: "pyfloat \<Rightarrow> pyfloat \<Rightarrow> pyfloat" where
  "fsub x y = fadd x (fneg y)"

fun flt :: "pyfloat \<Rightarrow> pyfloat \<Rightarrow> bool" where
  "flt (Fin a) (Fin b) = (a < b)"
| "flt NInf (Fin b) = True"
| "flt NInf PInf = True"
| "flt (Fin a) PInf = True"
| "flt x y = False"

definition fgt :: "pyfloat \<Rightarrow> pyfloat \<Rightarrow> bool" where
  "fgt x y = flt y x"

definition fge :: "pyfloat \<Rightarrow> pyfloat \<Rightarrow> bool" where
  "fge x y = (x \<noteq> NaN \<and> y \<noteq> NaN \<and> \<not> flt x y)"

text \<open>
  The values that occur in a stock dictionary. \<open>type(v) is float\<close> holds of \<open>PFloat\<close>
  only: an int or a bool is not a float.
\<close>

datatype pyval = PNone | PBool bool | PInt int | PFloat pyfloat | PStr string

text \<open>Exceptions carry their message. \<open>Error\<close> stands for any other subclass of
  \<open>Exception\<close>, among them the ones raised with \<open>raise Exception(...)\<close>.\<close>

datatype pyexn =
    PlaywrightTimeoutError string
  | KeyError string
  | TypeError string
  | ValueError string
  | IndexError string
  | AttributeError string
  | Error string

definition bind_e :: "pyexn + 'a \<Rightarrow> ('a \<Rightarrow> pyexn + 'b) \<Rightarrow> pyexn + 'b" where
  "bind_e m f = (case m of Inl e \<Rightarrow> Inl e | Inr x \<Rightarrow> f x)"

section \<open>The account ledger\<close>

text \<open>
  A stock is a dictionary with string keys; \<open>d[k]\<close> raises KeyError on a missing key.
\<close>

type_synonym stock_dict = "string \<rightharpoonup> pyval"

definition subscript :: "stock_dict \<Rightarrow> string \<Rightarrow> pyexn + pyval" where
  "subscript d k = (case d k of None \<Rightarrow> Inl (KeyError k) | Some v \<Rightarrow> Inr v)"

definition create_stock_dict :: "string \<Rightarrow> pyfloat \<Rightarrow> pyfloat \<Rightarrow> pyfloat \<Rightarrow> stock_dict" where
  "create_stock_dict ticker quantity last_price val =
     [''ticker'' \<mapsto> PStr ticker, ''quantity'' \<mapsto> PFloat quantity,
      ''last_price'' \<mapsto> PFloat last_price, ''value'' \<mapsto> PFloat val]"

text \<open>
  An entry of \<open>account_dict\<close>. The dictionary itself keeps insertion order, which
  \<open>summary_holdings\<close> iterates in, so it is an association list: assigning to a key that is
  present replaces its value in place, assigning to a new key appends (\<open>AList.update\<close>).
  Position lists are held by value: two accounts that were given the very same list object
  would share later appends in Python, which no statement below depends on.
\<close>

record account =
  balance :: pyfloat
  nickname :: "string option"
  stocks :: "stock_dict list"

type_synonym ledger = "(string \<times> account) list"

definition has_account :: "ledger \<Rightarrow> string \<Rightarrow> bool" where
  "has_account account_dict account_num = (map_of account_dict account_num \<noteq> None)"

text \<open>The body of the \<open>try\<close> in \<open>validate_stocks\<close>, for one stock: the two \<open>if\<close>
  statements, whose \<open>or\<close> chains read the four fields in order.\<close>

definition is_none_check :: "stock_dict \<Rightarrow> pyexn + unit" where
  "is_none_check stock =
     bind_e (subscript stock ''ticker'') (\<lambda>t. if t = PNone then Inl (Error ''Missing fields'') else
     bind_e (subscript stock ''quantity'') (\<lambda>q. if q = PNone then Inl (Error ''Missing fields'') else
     bind_e (subscript stock ''last_price'') (\<lambda>p. if p = PNone then Inl (Error ''Missing fields'') else
     bind_e (subscript stock ''value'') (\<lambda>v. if v = PNone then Inl (Error ''Missing fields'') else
     Inr ()))))"

fun is_str :: "pyval \<Rightarrow> bool" where
  "is_str (PStr s) = True"
| "is_str v = False"

fun is_float :: "pyval \<Rightarrow> bool" where
  "is_float (PFloat x) = True"
| "is_float v = False"

definition type_check :: "stock_dict \<Rightarrow> pyexn + unit" where
  "type_check stock =
     bind_e (subscript stock ''ticker'') (\<lambda>t. if \<not> is_str t then Inl (Error ''Incorrect types for entries'') else
     bind_e (subscript stock ''quantity'') (\<lambda>q. if \<not> is_float q then Inl (Error ''Incorrect types for entries'') else
     bind_e (subscript stock ''last_price'') (\<lambda>p. if \<not> is_float p then Inl (Error ''Incorrect types for entries'') else
     bind_e (subscript stock ''value'') (\<lambda>v. if \<not> is_float v then Inl (Error ''Incorrect types for entries'') else
     Inr ()))))"

definition check_stock :: "stock_dict \<Rightarrow> pyexn + unit" where
  "check_stock stock = bind_e (is_none_check stock) (\<lambda>_. type_check stock)"

text \<open>The loop of \<open>validate_stocks\<close>: the first stock whose check raises makes the
  function print the defect and return False.\<close>

fun validate_loop :: "stock_dict list \<Rightarrow> bool" where
  "validate_loop [] = True"
| "validate_loop (stock # rest) =
     (case check_stock stock of Inl e \<Rightarrow> False | Inr _ \<Rightarrow> validate_loop rest)"

definition validate_stocks :: "stock_dict list option \<Rightarrow> bool" where
  "validate_stocks stocks_arg = (case stocks_arg of None \<Rightarrow> True | Some ss \<Rightarrow> validate_loop ss)"

definition set_account_dict ::
  "ledger \<Rightarrow> string \<Rightarrow> pyfloat option \<Rightarrow> string option \<Rightarrow> stock_dict list option \<Rightarrow> bool
     \<Rightarrow> bool \<times> ledger" where
  "set_account_dict account_dict account_num balance_arg nickname_arg stocks_arg overwrite =
     (if overwrite \<or> \<not> has_account account_dict account_num then
        if \<not> validate_stocks stocks_arg then (False, account_dict)
        else (True, AList.update account_num
                 \<lparr>balance = (case balance_arg of None \<Rightarrow> Fin 0 | Some b \<Rightarrow> b),
                  nickname = nickname_arg,
                  stocks = (case stocks_arg of None \<Rightarrow> [] | Some ss \<Rightarrow> ss)\<rparr> account_dict)
      else (False, account_dict))"

text \<open>\<open>balance += v\<close> on a float balance: an int or a bool is converted, anything else
  raises TypeError.\<close>

fun iadd_float :: "pyfloat \<Rightarrow> pyval \<Rightarrow> pyexn + pyfloat" where
  "iadd_float b (PFloat x) = Inr (fadd b x)"
| "iadd_float b (PInt i) = Inr (fadd b (Fin (of_int i)))"
| "iadd_float b (PBool t) = Inr (fadd b (Fin (if t then 1 else 0)))"
| "iadd_float b PNone = Inl (TypeError ''unsupported operand type(s) for +='')"
| "iadd_float b (PStr s) = Inl (TypeError ''unsupported operand type(s) for +='')"

text \<open>
  \<open>add_stock_to_account_dict\<close> appends first and adds to the balance second, so an
  exception of the second statement leaves the appended stock in the ledger: the ledger is
  returned in either case.
\<close>

definition add_stock_to_account_dict ::
  "ledger \<Rightarrow> string \<Rightarrow> stock_dict \<Rightarrow> (pyexn + bool) \<times> ledger" where
  "add_stock_to_account_dict account_dict account_num stock =
     (case map_of account_dict account_num of
        None \<Rightarrow> (Inr False, account_dict)
      | Some a \<Rightarrow>
          (let a1 = a\<lparr>stocks := stocks a @ [stock]\<rparr>;
               d1 = AList.update account_num a1 account_dict
           in case bind_e (subscript stock ''value'') (iadd_float (balance a1)) of
                Inl e \<Rightarrow> (Inl e, d1)
              | Inr b \<Rightarrow> (Inr True, AList.update account_num (a1\<lparr>balance := b\<rparr>) d1)))"

section \<open>Properties of the ledger operations\<close>

lemma has_account_iff: "has_account d k \<longleftrightarrow> k \<in> fst ` set d"
  by (simp add: has_account_def map_of_eq_None_iff)

lemma map_of_update_same: "map_of (AList.update k v d) k = Some v"
  by (simp add: update_conv')

lemma map_of_update_other: "k' \<noteq> k \<Longrightarrow> map_of (AList.update k v d) k' = map_of d k'"
  by (simp add: update_conv')

lemma keys_update_present: "k \<in> fst ` set d \<Longrightarrow> map fst (AList.update k v d) = map fst d"
  by (induction d) auto

text \<open>
  C3. For an account number that is in the ledger, \<open>set_account_dict\<close> with
  \<open>overwrite=False\<close> returns False and leaves the ledger as it is; with \<open>overwrite=True\<close>
  and a stock list that passes \<open>validate_stocks\<close> it returns True, the entry of that
  account becomes the supplied balance, nickname and position list (0.0 and the empty list
  standing for an omitted balance and list), every other entry is as before and the order of
  the accounts is kept.
\<close>

theorem set_account_dict_existing:
  assumes "has_account account_dict account_num"
  shows "set_account_dict account_dict account_num b n ss False = (False, account_dict)
    \<and> (validate_stocks ss \<longrightarrow>
         (\<exists>d'. set_account_dict account_dict account_num b n ss True = (True, d')
            \<and> map_of d' account_num =
                Some \<lparr>balance = (case b of None \<Rightarrow> Fin 0 | Some x \<Rightarrow> x), nickname = n,
                      stocks = (case ss of None \<Rightarrow> [] | Some l \<Rightarrow> l)\<rparr>
            \<and> (\<forall>k. k \<noteq> account_num \<longrightarrow> map_of d' k = map_of account_dict k)
            \<and> map fst d' = map fst account_dict))"
  using assms
  by (simp add: set_account_dict_def map_of_update_same map_of_update_other
      keys_update_present has_account_iff)

theorem set_account_dict_existing_witness:
  "has_account [(''Z12345678'', \<lparr>balance = Fin 240, nickname = Some ''Individual'',
        stocks = [create_stock_dict ''NVDA'' (Fin 2) (Fin 120) (Fin 240)]\<rparr>)] ''Z12345678''
   \<and> validate_stocks (Some [create_stock_dict ''AAPL'' (Fin 1) (Fin 5) (Fin 5)])
   \<and> set_account_dict [(''Z12345678'', \<lparr>balance = Fin 240, nickname = Some ''Individual'',
        stocks = [create_stock_dict ''NVDA'' (Fin 2) (Fin 120) (Fin 240)]\<rparr>)] ''Z12345678''
        (Some (Fin 5)) (Some ''Roth'') (Some [create_stock_dict ''AAPL'' (Fin 1) (Fin 5) (Fin 5)]) False
      = (False, [(''Z12345678'', \<lparr>balance = Fin 240, nickname = Some ''Individual'',
        stocks = [create_stock_dict ''NVDA'' (Fin 2) (Fin 120) (Fin 240)]\<rparr>)])
   \<and> set_account_dict [(''Z12345678'', \<lparr>balance = Fin 240, nickname = Some ''Individual'',
        stocks = [create_stock_dict ''NVDA'' (Fin 2) (Fin 120) (Fin 240)]\<rparr>)] ''Z12345678''
        (Some (Fin 5)) (Some ''Roth'') (Some [create_stock_dict ''AAPL'' (Fin 1) (Fin 5) (Fin 5)]) True
      = (True, [(''Z12345678'', \<lparr>balance = Fin 5, nickname = Some ''Roth'',
        stocks = [create_stock_dict ''AAPL'' (Fin 1) (Fin 5) (Fin 5)]\<rparr>)])"
proof -
  have h: "has_account [(''Z12345678'', \<lparr>balance = Fin 240, nickname = Some ''Individual'',
        stocks = [create_stock_dict ''NVDA'' (Fin 2) (Fin 120) (Fin 240)]\<rparr>)] ''Z12345678''"
    by (simp add: has_account_def)
  have v: "validate_stocks (Some [create_stock_dict ''AAPL'' (Fin 1) (Fin 5) (Fin 5)])"
    by (simp add: validate_stocks_def check_stock_def is_none_check_def type_check_def
        bind_e_def subscript_def create_stock_dict_def)
  show ?thesis
    using h v set_account_dict_existing [OF h, of "Some (Fin 5)" "Some ''Roth''"
        "Some [create_stock_dict ''AAPL'' (Fin 1) (Fin 5) (Fin 5)]"]
    by (simp add: set_account_dict_def)
qed

text \<open>
  C4. For an account that is in the ledger and a stock whose \<open>value\<close> field is a float,
  \<open>add_stock_to_account_dict\<close> returns True, the stock is appended to that account's
  position list and the account's balance becomes the old balance plus the stock's value;
  the nickname, the other accounts and the order of the accounts are as before.
\<close>

theorem add_stock_increases_balance:
  assumes "map_of account_dict account_num = Some a"
    and "stock ''value'' = Some (PFloat v)"
  shows "\<exists>d'. add_stock_to_account_dict account_dict account_num stock = (Inr True, d')
           \<and> map_of d' account_num =
               Some (a\<lparr>stocks := stocks a @ [stock], balance := fadd (balance a) v\<rparr>)
           \<and> (\<forall>k. k \<noteq> account_num \<longrightarrow> map_of d' k = map_of account_dict k)
           \<and> map fst d' = map fst account_dict"
proof -
  have k: "account_num \<in> fst ` set account_dict"
    using assms(1) by (metis has_account_def has_account_iff option.distinct(1))
  then have k1: "account_num \<in> fst ` set (AList.update account_num x account_dict)" for x
    by (metis keys_update_present list.set_map)
  show ?thesis
    using assms k
    by (simp add: add_stock_to_account_dict_def Let_def bind_e_def subscript_def
        map_of_update_same map_of_update_other keys_update_present k1)
qed

theorem add_stock_increases_balance_witness:
  "map_of [(''Z12345678'', \<lparr>balance = Fin 240, nickname = Some ''Individual'',
        stocks = [create_stock_dict ''NVDA'' (Fin 2) (Fin 120) (Fin 240)]\<rparr>)] ''Z12345678''
     = Some \<lparr>balance = Fin 240, nickname = Some ''Individual'',
        stocks = [create_stock_dict ''NVDA'' (Fin 2) (Fin 120) (Fin 240)]\<rparr>
   \<and> create_stock_dict ''AAPL'' (Fin 1) (Fin 5) (Fin 5) ''value'' = Some (PFloat (Fin 5))
   \<and> add_stock_to_account_dict [(''Z12345678'', \<lparr>balance = Fin 240, nickname = Some ''Individual'',
        stocks = [create_stock_dict ''NVDA'' (Fin 2) (Fin 120) (Fin 240)]\<rparr>)] ''Z12345678''
        (create_stock_dict ''AAPL'' (Fin 1) (Fin 5) (Fin 5))
      = (Inr True, [(''Z12345678'', \<lparr>balance = Fin 245, nickname = Some ''Individual'',
        stocks = [create_stock_dict ''NVDA'' (Fin 2) (Fin 120) (Fin 240),
                  create_stock_dict ''AAPL'' (Fin 1) (Fin 5) (Fin 5)]\<rparr>)])"
proof -
  have h: "map_of [(''Z12345678'', \<lparr>balance = Fin 240, nickname = Some ''Individual'',
        stocks = [create_stock_dict ''NVDA'' (Fin 2) (Fin 120) (Fin 240)]\<rparr>)] ''Z12345678''
     = Some \<lparr>balance = Fin 240, nickname = Some ''Individual'',
        stocks = [create_stock_dict ''NVDA'' (Fin 2) (Fin 120) (Fin 240)]\<rparr>"
    by simp
  have v: "create_stock_dict ''AAPL'' (Fin 1) (Fin 5) (Fin 5) ''value'' = Some (PFloat (Fin 5))"
    by (simp add: create_stock_dict_def)
  show ?thesis
    using h v add_stock_increases_balance [where stock = "create_stock_dict ''AAPL'' (Fin 1) (Fin 5) (Fin 5)"
        and v = "Fin 5", OF h]
    by (simp add: add_stock_to_account_dict_def Let_def bind_e_def subscript_def)
qed

text \<open>
  C10. For an account number that is not in the ledger, \<open>add_stock_to_account_dict\<close>
  returns False and the ledger is the one it was given: no entry is created.
\<close>

theorem add_stock_absent_account:
  assumes "\<not> has_account account_dict account_num"
  shows "add_stock_to_account_dict account_dict account_num stock = (Inr False, account_dict)"
  using assms by (simp add: add_stock_to_account_dict_def has_account_def)

theorem add_stock_absent_account_witness:
  "\<not> has_account [(''Z12345678'', \<lparr>balance = Fin 240, nickname = Some ''Individual'',
        stocks = []\<rparr>)] ''Z87654321''
   \<and> add_stock_to_account_dict [(''Z12345678'', \<lparr>balance = Fin 240, nickname = Some ''Individual'',
        stocks = []\<rparr>)] ''Z87654321'' (create_stock_dict ''AAPL'' (Fin 1) (Fin 5) (Fin 5))
      = (Inr False, [(''Z12345678'', \<lparr>balance = Fin 240, nickname = Some ''Individual'',
        stocks = []\<rparr>)])"
proof -
  have h: "\<not> has_account [(''Z12345678'', \<lparr>balance = Fin 240, nickname = Some ''Individual'',
        stocks = []\<rparr>)] ''Z87654321''"
    by (simp add: has_account_def)
  show ?thesis
    using h add_stock_absent_account [OF h, of "create_stock_dict ''AAPL'' (Fin 1) (Fin 5) (Fin 5)"]
    by simp
qed

text \<open>
  What \<open>validate_stocks\<close> accepts: every stock of the list has the four fields, the ticker
  a str and the other three floats. \<open>set_account_dict\<close> stores a list only after this
  check.
\<close>

definition field_is :: "(pyval \<Rightarrow> bool) \<Rightarrow> stock_dict \<Rightarrow> string \<Rightarrow> bool" where
  "field_is P stock k = (case stock k of None \<Rightarrow> False | Some v \<Rightarrow> P v)"

definition well_formed_stock :: "stock_dict \<Rightarrow> bool" where
  "well_formed_stock stock =
     (field_is is_str stock ''ticker'' \<and> field_is is_float stock ''quantity'' \<and>
      field_is is_float stock ''last_price'' \<and> field_is is_float stock ''value'')"

lemma is_str_not_none: "is_str v \<Longrightarrow> v \<noteq> PNone"
  by (cases v) auto

lemma is_float_not_none: "is_float v \<Longrightarrow> v \<noteq> PNone"
  by (cases v) auto

lemma check_stock_well_formed: "check_stock stock = Inr () \<longleftrightarrow> well_formed_stock stock"
  by (auto simp: check_stock_def is_none_check_def type_check_def bind_e_def subscript_def
      well_formed_stock_def field_is_def is_str_not_none is_float_not_none
      split: option.splits if_splits)

lemma validate_loop_iff: "validate_loop ss \<longleftrightarrow> list_all well_formed_stock ss"
  by (induction ss) (auto simp: check_stock_well_formed [symmetric] split: sum.splits)

lemma set_account_dict_validates:
  "set_account_dict account_dict account_num b n (Some ss) overwrite = (True, d')
     \<Longrightarrow> list_all well_formed_stock ss"
  by (auto simp: set_account_dict_def validate_stocks_def validate_loop_iff split: if_splits)

text \<open>
  C8. \<open>add_stock_to_account_dict\<close> does not run the validation that \<open>set_account_dict\<close>
  runs. A stock whose quantity is the int 2 is refused by \<open>validate_stocks\<close> and by
  \<open>set_account_dict\<close>, and is accepted by \<open>add_stock_to_account_dict\<close>, which returns True
  with the stock in the position list.
\<close>

theorem add_stock_skips_validation:
  "add_stock_to_account_dict
      [(''Z12345678'', \<lparr>balance = Fin 0, nickname = Some ''Individual'', stocks = []\<rparr>)]
      ''Z12345678''
      [''ticker'' \<mapsto> PStr ''NVDA'', ''quantity'' \<mapsto> PInt 2,
       ''last_price'' \<mapsto> PFloat (Fin 120), ''value'' \<mapsto> PFloat (Fin 240)]
    = (Inr True,
       [(''Z12345678'', \<lparr>balance = Fin 240, nickname = Some ''Individual'',
          stocks = [[''ticker'' \<mapsto> PStr ''NVDA'', ''quantity'' \<mapsto> PInt 2,
                     ''last_price'' \<mapsto> PFloat (Fin 120), ''value'' \<mapsto> PFloat (Fin 240)]]\<rparr>)])
   \<and> \<not> validate_stocks (Some [[''ticker'' \<mapsto> PStr ''NVDA'', ''quantity'' \<mapsto> PInt 2,
                     ''last_price'' \<mapsto> PFloat (Fin 120), ''value'' \<mapsto> PFloat (Fin 240)]])
   \<and> set_account_dict
      [(''Z12345678'', \<lparr>balance = Fin 0, nickname = Some ''Individual'', stocks = []\<rparr>)]
      ''Z12345678'' (Some (Fin 240)) (Some ''Individual'')
      (Some [[''ticker'' \<mapsto> PStr ''NVDA'', ''quantity'' \<mapsto> PInt 2,
                     ''last_price'' \<mapsto> PFloat (Fin 120), ''value'' \<mapsto> PFloat (Fin 240)]]) True
    = (False, [(''Z12345678'', \<lparr>balance = Fin 0, nickname = Some ''Individual'', stocks = []\<rparr>)])"
  by (simp add: add_stock_to_account_dict_def set_account_dict_def validate_stocks_def
      check_stock_def is_none_check_def type_check_def bind_e_def subscript_def Let_def)

section \<open>Strings and \<open>float()\<close>\<close>

text \<open>
  Strings are lists of ASCII characters. \<open>lower\<close> is \<open>str.lower()\<close>, \<open>strip\<close> is
  \<open>str.strip()\<close> (the whitespace characters are 9 to 13 and 28 to 32).

  \<open>float_of_str\<close> is \<open>float(s)\<close> on a string: surrounding whitespace is dropped, an
  underscore may stand between two digits, then an optional sign and either \<open>inf\<close>,
  \<open>infinity\<close> or \<open>nan\<close> in any case, or a decimal number with at least one digit and an
  optional exponent. Anything else raises ValueError.
\<close>

definition is_digit :: "char \<Rightarrow> bool" where
  "is_digit c = (48 \<le> (of_char c :: nat) \<and> (of_char c :: nat) \<le> 57)"

definition is_space :: "char \<Rightarrow> bool" where
  "is_space c = (let n = (of_char c :: nat) in (9 \<le> n \<and> n \<le> 13) \<or> (28 \<le> n \<and> n \<le> 32))"

definition lower_char :: "char \<Rightarrow> char" where
  "lower_char c = (let n = (of_char c :: nat) in if 65 \<le> n \<and> n \<le> 90 then char_of (n + 32) else c)"

definition lower :: "string \<Rightarrow> string" where
  "lower s = map lower_char s"

definition strip :: "string \<Rightarrow> string" where
  "strip s = rev (dropWhile is_space (rev (dropWhile is_space s)))"

fun underscores_ok :: "char option \<Rightarrow> string \<Rightarrow> bool" where
  "underscores_ok prev [] = (prev \<noteq> Some CHR ''_'')"
| "underscores_ok prev (c # cs) =
     (if c = CHR ''_'' then
        (case prev of Some p \<Rightarrow> is_digit p \<and> underscores_ok (Some c) cs | None \<Rightarrow> False)
      else if prev = Some CHR ''_'' \<and> \<not> is_digit c then False
      else underscores_ok (Some c) cs)"

fun nat_of_digits :: "nat \<Rightarrow> string \<Rightarrow> nat" where
  "nat_of_digits acc [] = acc"
| "nat_of_digits acc (c # cs) = nat_of_digits (10 * acc + (of_char c - 48)) cs"

definition scale10 :: "nat \<Rightarrow> int \<Rightarrow> real" where
  "scale10 m e = (if 0 \<le> e then of_nat m * 10 ^ nat e else of_nat m / 10 ^ nat (- e))"

definition parse_exponent :: "string \<Rightarrow> int option" where
  "parse_exponent r =
     (case r of
        [] \<Rightarrow> Some 0
      | c # r1 \<Rightarrow>
          if c = CHR ''e'' \<or> c = CHR ''E'' then
            (let (neg, r2) = (case r1 of
                                [] \<Rightarrow> (False, r1)
                              | s # r1' \<Rightarrow> if s = CHR ''-'' then (True, r1')
                                           else if s = CHR ''+'' then (False, r1') else (False, r1))
             in if r2 \<noteq> [] \<and> list_all is_digit r2
                then Some (if neg then - int (nat_of_digits 0 r2) else int (nat_of_digits 0 r2))
                else None)
          else None)"

definition parse_decimal :: "string \<Rightarrow> real option" where
  "parse_decimal r =
     (let ip = takeWhile is_digit r; r1 = dropWhile is_digit r;
          (fp, r2) = (case r1 of
                        [] \<Rightarrow> ([], r1)
                      | c # r1' \<Rightarrow> if c = CHR ''.'' then (takeWhile is_digit r1', dropWhile is_digit r1')
                                   else ([], r1))
      in if ip = [] \<and> fp = [] then None
         else (case parse_exponent r2 of
                 None \<Rightarrow> None
               | Some e \<Rightarrow> Some (scale10 (nat_of_digits 0 (ip @ fp)) (e - int (length fp)))))"

definition parse_abs :: "string \<Rightarrow> pyfloat option" where
  "parse_abs r =
     (if lower r = ''inf'' \<or> lower r = ''infinity'' then Some PInf
      else if lower r = ''nan'' then Some NaN
      else map_option Fin (parse_decimal r))"

definition parse_signed :: "string \<Rightarrow> pyfloat option" where
  "parse_signed u =
     (case u of
        [] \<Rightarrow> None
      | c # r \<Rightarrow> if c = CHR ''-'' then map_option fneg (parse_abs r)
                 else if c = CHR ''+'' then parse_abs r
                 else parse_abs u)"

definition float_of_str :: "string \<Rightarrow> pyexn + pyfloat" where
  "float_of_str s =
     (let t = strip s in
      if \<not> underscores_ok None t then Inl (ValueError ''could not convert string to float'')
      else (case parse_signed (filter (\<lambda>c. c \<noteq> CHR ''_'') t) of
              None \<Rightarrow> Inl (ValueError ''could not convert string to float'')
            | Some x \<Rightarrow> Inr x))"


lemmas float_of_str_simps = float_of_str_def strip_def parse_signed_def parse_abs_def
  parse_decimal_def parse_exponent_def scale10_def lower_def lower_char_def is_digit_def
  is_space_def Let_def

text \<open>\<open>float(v)\<close> on a value of a stock dictionary.\<close>

fun py_float :: "pyval \<Rightarrow> pyexn + pyfloat" where
  "py_float (PFloat x) = Inr x"
| "py_float (PInt i) = Inr (Fin (of_int i))"
| "py_float (PBool t) = Inr (Fin (if t then 1 else 0))"
| "py_float (PStr s) = float_of_str s"
| "py_float PNone = Inl (TypeError ''float() argument must be a string or a real number'')"

section \<open>\<open>summary_holdings\<close>\<close>

text \<open>
  \<open>unique_stocks\<close> maps a ticker to its quantity, last price and value. It is built by
  two nested loops, over the accounts in the order of the ledger and over each account's
  position list. The first position of a ticker creates the entry from its three fields;
  a later one adds its quantity and its value to the entry and leaves \<open>last_price\<close> alone.
  The summary text built afterwards is dropped by the function and is not modelled. The
  ledger is only read: it is returned unchanged beside the result. A key of
  \<open>unique_stocks\<close> is the ticker whatever its type; keys are compared as values of the
  model, so that Python's \<open>1 == 1.0 == True\<close> among keys is not modelled.
\<close>

record summary_entry =
  s_quantity :: pyfloat
  s_last_price :: pyfloat
  s_value :: pyfloat

type_synonym summary = "(pyval \<times> summary_entry) list"

definition summarize_stock :: "summary \<Rightarrow> stock_dict \<Rightarrow> pyexn + summary" where
  "summarize_stock unique_stocks stock_dict =
     bind_e (subscript stock_dict ''ticker'') (\<lambda>t.
       case map_of unique_stocks t of
         None \<Rightarrow>
           bind_e (subscript stock_dict ''quantity'') (\<lambda>q. bind_e (py_float q) (\<lambda>qf.
           bind_e (subscript stock_dict ''last_price'') (\<lambda>p. bind_e (py_float p) (\<lambda>pf.
           bind_e (subscript stock_dict ''value'') (\<lambda>v. bind_e (py_float v) (\<lambda>vf.
           Inr (AList.update t \<lparr>s_quantity = qf, s_last_price = pf, s_value = vf\<rparr>
                  unique_stocks)))))))
       | Some h \<Rightarrow>
           bind_e (subscript stock_dict ''quantity'') (\<lambda>q. bind_e (py_float q) (\<lambda>qf.
           bind_e (subscript stock_dict ''value'') (\<lambda>v. bind_e (py_float v) (\<lambda>vf.
           Inr (AList.update t
                  \<lparr>s_quantity = fadd (s_quantity h) qf, s_last_price = s_last_price h,
                   s_value = fadd (s_value h) vf\<rparr> unique_stocks))))))"

fun stocks_loop :: "summary \<Rightarrow> stock_dict list \<Rightarrow> pyexn + summary" where
  "stocks_loop unique_stocks [] = Inr unique_stocks"
| "stocks_loop unique_stocks (stock_dict # rest) =
     bind_e (summarize_stock unique_stocks stock_dict) (\<lambda>u. stocks_loop u rest)"

fun accounts_loop :: "summary \<Rightarrow> ledger \<Rightarrow> pyexn + summary" where
  "accounts_loop unique_stocks [] = Inr unique_stocks"
| "accounts_loop unique_stocks ((account_number, a) # rest) =
     bind_e (stocks_loop unique_stocks (stocks a)) (\<lambda>u. accounts_loop u rest)"

definition summary_holdings :: "ledger \<Rightarrow> (pyexn + summary) \<times> ledger" where
  "summary_holdings account_dict = (accounts_loop [] account_dict, account_dict)"

text \<open>
  What the summary is compared with: the positions of the whole ledger in the order of the
  two loops, those of one ticker among them, and the entry they add up to. The sums are
  taken in that order, starting from the first position of the ticker. \<open>float_field\<close>
  reads a float field of a well-formed stock.
\<close>

definition float_field :: "stock_dict \<Rightarrow> string \<Rightarrow> pyfloat" where
  "float_field stock k = (case stock k of Some (PFloat x) \<Rightarrow> x | _ \<Rightarrow> Fin 0)"

definition all_positions :: "ledger \<Rightarrow> stock_dict list" where
  "all_positions account_dict = concat (map (\<lambda>(k, a). stocks a) account_dict)"

definition positions_of :: "string \<Rightarrow> stock_dict list \<Rightarrow> stock_dict list" where
  "positions_of t ps = filter (\<lambda>s. s ''ticker'' = Some (PStr t)) ps"

fun aggregate :: "stock_dict list \<Rightarrow> summary_entry option" where
  "aggregate [] = None"
| "aggregate (p # ps) =
     Some \<lparr>s_quantity = foldl fadd (float_field p ''quantity'') (map (\<lambda>s. float_field s ''quantity'') ps),
           s_last_price = float_field p ''last_price'',
           s_value = foldl fadd (float_field p ''value'') (map (\<lambda>s. float_field s ''value'') ps)\<rparr>"

definition summary_of :: "summary \<Rightarrow> stock_dict list \<Rightarrow> bool" where
  "summary_of u ps =
     (\<forall>k. map_of u k = (case k of PStr t \<Rightarrow> aggregate (positions_of t ps) | _ \<Rightarrow> None))"

lemma aggregate_snoc:
  "aggregate (ps @ [x]) =
     (case aggregate ps of
        None \<Rightarrow> Some \<lparr>s_quantity = float_field x ''quantity'', s_last_price = float_field x ''last_price'',
                     s_value = float_field x ''value''\<rparr>
      | Some h \<Rightarrow> Some \<lparr>s_quantity = fadd (s_quantity h) (float_field x ''quantity''),
                     s_last_price = s_last_price h,
                     s_value = fadd (s_value h) (float_field x ''value'')\<rparr>)"
  by (cases ps) simp_all

lemma well_formed_fields:
  assumes "well_formed_stock x"
  obtains t q p v where "x ''ticker'' = Some (PStr t)" "x ''quantity'' = Some (PFloat q)"
    "x ''last_price'' = Some (PFloat p)" "x ''value'' = Some (PFloat v)"
proof -
  have str: "is_str w \<Longrightarrow> \<exists>t. w = PStr t" for w by (cases w) auto
  have fl: "is_float w \<Longrightarrow> \<exists>t. w = PFloat t" for w by (cases w) auto
  from assms show ?thesis
    using that
    by (auto simp: well_formed_stock_def field_is_def split: option.splits dest!: str fl)
qed

lemma summarize_stock_step:
  assumes "well_formed_stock x" and "summary_of u ps"
  shows "\<exists>u'. summarize_stock u x = Inr u' \<and> summary_of u' (ps @ [x])"
proof -
  from assms(1) obtain t q p v where f: "x ''ticker'' = Some (PStr t)"
    "x ''quantity'' = Some (PFloat q)" "x ''last_price'' = Some (PFloat p)"
    "x ''value'' = Some (PFloat v)"
    by (rule well_formed_fields)
  have look: "map_of u (PStr t) = aggregate (positions_of t ps)"
    using assms(2) by (simp add: summary_of_def)
  have pos_same: "positions_of t (ps @ [x]) = positions_of t ps @ [x]"
    using f by (simp add: positions_of_def)
  have pos_other: "t' \<noteq> t \<Longrightarrow> positions_of t' (ps @ [x]) = positions_of t' ps" for t'
    using f by (simp add: positions_of_def)
  show ?thesis
  proof (cases "aggregate (positions_of t ps)")
    case None
    let ?u' = "AList.update (PStr t) \<lparr>s_quantity = q, s_last_price = p, s_value = v\<rparr> u"
    have run: "summarize_stock u x = Inr ?u'"
      using f look None by (simp add: summarize_stock_def bind_e_def subscript_def)
    have "summary_of ?u' (ps @ [x])"
      unfolding summary_of_def
    proof
      fix k show "map_of ?u' k = (case k of PStr t \<Rightarrow> aggregate (positions_of t (ps @ [x])) | _ \<Rightarrow> None)"
      proof (cases "k = PStr t")
        case True
        then show ?thesis
          using None f by (simp add: update_conv' pos_same aggregate_snoc float_field_def)
      next
        case False
        then show ?thesis
          using assms(2) by (cases k) (auto simp: update_conv' summary_of_def pos_other)
      qed
    qed
    with run show ?thesis by blast
  next
    case (Some h)
    let ?u' = "AList.update (PStr t) \<lparr>s_quantity = fadd (s_quantity h) q,
        s_last_price = s_last_price h, s_value = fadd (s_value h) v\<rparr> u"
    have run: "summarize_stock u x = Inr ?u'"
      using f look Some by (simp add: summarize_stock_def bind_e_def subscript_def)
    have "summary_of ?u' (ps @ [x])"
      unfolding summary_of_def
    proof
      fix k show "map_of ?u' k = (case k of PStr t \<Rightarrow> aggregate (positions_of t (ps @ [x])) | _ \<Rightarrow> None)"
      proof (cases "k = PStr t")
        case True
        then show ?thesis
          using Some f by (simp add: update_conv' pos_same aggregate_snoc float_field_def)
      next
        case False
        then show ?thesis
          using assms(2) by (cases k) (auto simp: update_conv' summary_of_def pos_other)
      qed
    qed
    with run show ?thesis by blast
  qed
qed

lemma stocks_loop_summary:
  "list_all well_formed_stock xs \<Longrightarrow> summary_of u ps
     \<Longrightarrow> \<exists>u'. stocks_loop u xs = Inr u' \<and> summary_of u' (ps @ xs)"
proof (induction xs arbitrary: u ps)
  case Nil
  then show ?case by simp
next
  case (Cons x xs)
  from Cons.prems have "well_formed_stock x" by simp
  from summarize_stock_step [OF this Cons.prems(2)]
  obtain u1 where s1: "summarize_stock u x = Inr u1" "summary_of u1 (ps @ [x])"
    by blast
  from Cons.IH [OF _ s1(2)] Cons.prems(1)
  obtain u' where "stocks_loop u1 xs = Inr u'" "summary_of u' ((ps @ [x]) @ xs)"
    by auto
  with s1(1) show ?case by (simp add: bind_e_def)
qed

lemma accounts_loop_summary:
  "list_all (\<lambda>(k, a). list_all well_formed_stock (stocks a)) d \<Longrightarrow> summary_of u ps
     \<Longrightarrow> \<exists>u'. accounts_loop u d = Inr u' \<and> summary_of u' (ps @ all_positions d)"
proof (induction d arbitrary: u ps)
  case Nil
  then show ?case by (simp add: all_positions_def)
next
  case (Cons ka d)
  obtain k a where ka: "ka = (k, a)" by (cases ka)
  from Cons.prems ka have "list_all well_formed_stock (stocks a)" by simp
  from stocks_loop_summary [OF this Cons.prems(2)]
  obtain u1 where s1: "stocks_loop u (stocks a) = Inr u1" "summary_of u1 (ps @ stocks a)"
    by blast
  from Cons.IH [OF _ s1(2)] Cons.prems(1)
  obtain u' where "accounts_loop u1 d = Inr u'" "summary_of u' ((ps @ stocks a) @ all_positions d)"
    by auto
  with s1(1) ka show ?case by (simp add: bind_e_def all_positions_def)
qed

text \<open>
  C7. On a ledger whose positions are all well formed, \<open>summary_holdings\<close> returns a
  dictionary and leaves the ledger as it was. A ticker has an entry exactly when some
  account holds it; the entry's quantity and value are the sums of that ticker's quantities
  and values over all accounts, and its last price is the last price of the first position
  of that ticker in the order of iteration: later positions do not change it.
\<close>

theorem summary_holdings_aggregates:
  assumes "list_all (\<lambda>(k, a). list_all well_formed_stock (stocks a)) account_dict"
  shows "\<exists>u. summary_holdings account_dict = (Inr u, account_dict)
           \<and> (\<forall>k. map_of u k =
                 (case k of PStr t \<Rightarrow> aggregate (positions_of t (all_positions account_dict))
                  | _ \<Rightarrow> None))"
proof -
  have "summary_of [] []" by (simp add: summary_of_def positions_of_def split: pyval.splits)
  from accounts_loop_summary [OF assms this] show ?thesis
    by (simp add: summary_holdings_def summary_of_def)
qed

text \<open>
  The reading of C7 as it is written, with the price of the ticker's last position in the
  order of iteration: two accounts hold NVDA at 100 and at 110, the summary keeps 100.
\<close>

definition last_observed_price :: "string \<Rightarrow> stock_dict list \<Rightarrow> pyfloat option" where
  "last_observed_price t ps =
     (case positions_of t ps of [] \<Rightarrow> None | p # l \<Rightarrow> Some (float_field (last (p # l)) ''last_price''))"

theorem summary_holdings_last_price_counterexample:
  "summary_holdings
     [(''Z12345678'', \<lparr>balance = Fin 200, nickname = Some ''Individual'',
         stocks = [create_stock_dict ''NVDA'' (Fin 2) (Fin 100) (Fin 200)]\<rparr>),
      (''Z87654321'', \<lparr>balance = Fin 110, nickname = Some ''Roth'',
         stocks = [create_stock_dict ''NVDA'' (Fin 1) (Fin 110) (Fin 110)]\<rparr>)]
   = (Inr [(PStr ''NVDA'', \<lparr>s_quantity = Fin 3, s_last_price = Fin 100, s_value = Fin 310\<rparr>)],
      [(''Z12345678'', \<lparr>balance = Fin 200, nickname = Some ''Individual'',
         stocks = [create_stock_dict ''NVDA'' (Fin 2) (Fin 100) (Fin 200)]\<rparr>),
      (''Z87654321'', \<lparr>balance = Fin 110, nickname = Some ''Roth'',
         stocks = [create_stock_dict ''NVDA'' (Fin 1) (Fin 110) (Fin 110)]\<rparr>)])
   \<and> last_observed_price ''NVDA'' (all_positions
     [(''Z12345678'', \<lparr>balance = Fin 200, nickname = Some ''Individual'',
         stocks = [create_stock_dict ''NVDA'' (Fin 2) (Fin 100) (Fin 200)]\<rparr>),
      (''Z87654321'', \<lparr>balance = Fin 110, nickname = Some ''Roth'',
         stocks = [create_stock_dict ''NVDA'' (Fin 1) (Fin 110) (Fin 110)]\<rparr>)]) = Some (Fin 110)
   \<and> Fin 100 \<noteq> Fin 110"
  by (simp add: summary_holdings_def summarize_stock_def bind_e_def subscript_def
      create_stock_dict_def last_observed_price_def all_positions_def positions_of_def
      float_field_def)

theorem summary_holdings_aggregates_witness:
  "list_all (\<lambda>(k, a). list_all well_formed_stock (stocks a))
     [(''Z12345678'', \<lparr>balance = Fin 200, nickname = Some ''Individual'',
         stocks = [create_stock_dict ''NVDA'' (Fin 2) (Fin 100) (Fin 200),
                   create_stock_dict ''AAPL'' (Fin 1) (Fin 5) (Fin 5)]\<rparr>),
      (''Z87654321'', \<lparr>balance = Fin 110, nickname = Some ''Roth'',
         stocks = [create_stock_dict ''NVDA'' (Fin 1) (Fin 110) (Fin 110)]\<rparr>)]
   \<and> summary_holdings
     [(''Z12345678'', \<lparr>balance = Fin 200, nickname = Some ''Individual'',
         stocks = [create_stock_dict ''NVDA'' (Fin 2) (Fin 100) (Fin 200),
                   create_stock_dict ''AAPL'' (Fin 1) (Fin 5) (Fin 5)]\<rparr>),
      (''Z87654321'', \<lparr>balance = Fin 110, nickname = Some ''Roth'',
         stocks = [create_stock_dict ''NVDA'' (Fin 1) (Fin 110) (Fin 110)]\<rparr>)]
   = (Inr [(PStr ''NVDA'', \<lparr>s_quantity = Fin 3, s_last_price = Fin 100, s_value = Fin 310\<rparr>),
           (PStr ''AAPL'', \<lparr>s_quantity = Fin 1, s_last_price = Fin 5, s_value = Fin 5\<rparr>)],
      [(''Z12345678'', \<lparr>balance = Fin 200, nickname = Some ''Individual'',
         stocks = [create_stock_dict ''NVDA'' (Fin 2) (Fin 100) (Fin 200),
                   create_stock_dict ''AAPL'' (Fin 1) (Fin 5) (Fin 5)]\<rparr>),
      (''Z87654321'', \<lparr>balance = Fin 110, nickname = Some ''Roth'',
         stocks = [create_stock_dict ''NVDA'' (Fin 1) (Fin 110) (Fin 110)]\<rparr>)])"
proof -
  have h: "list_all (\<lambda>(k, a). list_all well_formed_stock (stocks a))
     [(''Z12345678'', \<lparr>balance = Fin 200, nickname = Some ''Individual'',
         stocks = [create_stock_dict ''NVDA'' (Fin 2) (Fin 100) (Fin 200),
                   create_stock_dict ''AAPL'' (Fin 1) (Fin 5) (Fin 5)]\<rparr>),
      (''Z87654321'', \<lparr>balance = Fin 110, nickname = Some ''Roth'',
         stocks = [create_stock_dict ''NVDA'' (Fin 1) (Fin 110) (Fin 110)]\<rparr>)]"
    by (simp add: well_formed_stock_def field_is_def create_stock_dict_def)
  show ?thesis
    using h summary_holdings_aggregates [OF h]
    by (simp add: summary_holdings_def summarize_stock_def bind_e_def subscript_def
        create_stock_dict_def)
qed

section \<open>\<open>get_list_of_accounts\<close>\<close>

text \<open>
  The account number is found with \<open>re.search(r'(?<=\()(Z|\d)\d{6,}(?=\))', text)\<close>. A
  match starts right after a \<open>(\<close>, is a \<open>Z\<close> or a digit followed by six or more digits, and
  is followed by \<open>)\<close>. The digits are taken greedily; a shorter run is followed by a digit
  and not by \<open>)\<close>, so only the whole run of digits can match. \<open>re.search\<close> returns the
  leftmost match.

  The nickname is found with \<open>re.search(r'^.+?(?=\()', text)\<close>: from the start of the
  text, the shortest run of one or more characters other than newline that is followed by
  \<open>(\<close>.

  The model starts from the texts of the options of the dropdown: the navigation to the
  transfer page, and the handler that turns an exception of the page into a printed
  message and the result None, are left out. \<open>add_option\<close> is the body of the loop on a
  pair of the ledger and \<open>local_dict\<close>.
\<close>

definition match_account_at :: "string \<Rightarrow> string option" where
  "match_account_at s =
     (case s of
        [] \<Rightarrow> None
      | c # cs \<Rightarrow>
          if c = CHR ''Z'' \<or> is_digit c then
            (let ds = takeWhile is_digit cs; r = dropWhile is_digit cs
             in if 6 \<le> length ds \<and> (case r of [] \<Rightarrow> False | x # _ \<Rightarrow> x = CHR '')'')
                then Some (c # ds) else None)
          else None)"

fun search_account :: "string \<Rightarrow> string option" where
  "search_account [] = None"
| "search_account (c # cs) =
     (if c = CHR ''('' then
        (case match_account_at cs of Some m \<Rightarrow> Some m | None \<Rightarrow> search_account cs)
      else search_account cs)"

definition search_nickname :: "string \<Rightarrow> string option" where
  "search_nickname s =
     (case s of
        [] \<Rightarrow> None
      | c # cs \<Rightarrow>
          if c = CHR 0x0A then None
          else (let pre = takeWhile (\<lambda>x. x \<noteq> CHR ''('' \<and> x \<noteq> CHR 0x0A) cs;
                    r = dropWhile (\<lambda>x. x \<noteq> CHR ''('' \<and> x \<noteq> CHR 0x0A) cs
                in case r of [] \<Rightarrow> None | x # _ \<Rightarrow> if x = CHR ''('' then Some (c # pre) else None))"

definition add_option :: "bool \<Rightarrow> ledger \<times> ledger \<Rightarrow> string \<Rightarrow> ledger \<times> ledger" where
  "add_option set_flag dicts inner_text =
     (case (search_account inner_text, search_nickname inner_text) of
        (Some account_number, Some nick) \<Rightarrow>
          if set_flag then
            (snd (set_account_dict (fst dicts) account_number None (Some nick) None False), snd dicts)
          else
            (fst dicts, AList.update account_number
                          \<lparr>balance = Fin 0, nickname = Some nick, stocks = []\<rparr> (snd dicts))
      | _ \<Rightarrow> dicts)"

definition get_list_of_accounts :: "ledger \<Rightarrow> string list \<Rightarrow> bool \<Rightarrow> ledger option \<times> ledger" where
  "get_list_of_accounts account_dict options set_flag =
     (let (d, local_dict) = foldl (add_option set_flag) (account_dict, []) options
      in if \<not> set_flag then (Some local_dict, d) else (None, d))"

text \<open>The tokens the pattern accepts between the parentheses.\<close>

definition account_token :: "string \<Rightarrow> bool" where
  "account_token tok =
     (case tok of [] \<Rightarrow> False
      | c # ds \<Rightarrow> (c = CHR ''Z'' \<or> is_digit c) \<and> list_all is_digit ds \<and> 6 \<le> length ds)"


lemma takeWhile_digits_paren:
  "list_all is_digit ds \<Longrightarrow> takeWhile is_digit (ds @ CHR '')'' # post) = ds
      \<and> dropWhile is_digit (ds @ CHR '')'' # post) = CHR '')'' # post"
  by (induction ds) (auto simp: is_digit_def)

lemma match_account_at_Some:
  "match_account_at s = Some tok \<Longrightarrow> account_token tok \<and> (\<exists>post. s = tok @ CHR '')'' # post)"
proof -
  assume a: "match_account_at s = Some tok"
  then obtain c cs where s: "s = c # cs" by (cases s) (auto simp: match_account_at_def)
  from a s have c: "c = CHR ''Z'' \<or> is_digit c"
    and len: "6 \<le> length (takeWhile is_digit cs)"
    and tok: "tok = c # takeWhile is_digit cs"
    and r: "\<exists>post. dropWhile is_digit cs = CHR '')'' # post"
    by (auto simp: match_account_at_def Let_def split: if_splits list.splits)
  from r obtain post where "dropWhile is_digit cs = CHR '')'' # post" by blast
  then have "cs = takeWhile is_digit cs @ CHR '')'' # post"
    by (metis takeWhile_dropWhile_id)
  with s tok c len show ?thesis
    by (auto simp: account_token_def list_all_iff dest: set_takeWhileD)
qed

lemma match_account_at_token:
  "account_token tok \<Longrightarrow> match_account_at (tok @ CHR '')'' # post) = Some tok"
  by (cases tok) (auto simp: account_token_def match_account_at_def takeWhile_digits_paren)

lemma search_account_Some:
  "search_account s = Some tok
     \<Longrightarrow> account_token tok \<and> (\<exists>pre post. s = pre @ CHR ''('' # tok @ CHR '')'' # post)"
proof (induction s)
  case Nil
  then show ?case by simp
next
  case (Cons c cs)
  show ?case
  proof (cases "c = CHR ''('' \<and> match_account_at cs \<noteq> None")
    case True
    with Cons.prems have "match_account_at cs = Some tok" by auto
    from match_account_at_Some [OF this] True show ?thesis by (metis append_Nil)
  next
    case False
    with Cons.prems have "search_account cs = Some tok" by (auto split: if_splits)
    from Cons.IH [OF this] show ?thesis by (metis append_Cons)
  qed
qed

lemma search_account_finds:
  "account_token tok \<Longrightarrow> search_account (pre @ CHR ''('' # tok @ CHR '')'' # post) \<noteq> None"
proof (induction pre)
  case Nil
  then show ?case by (simp add: match_account_at_token)
next
  case (Cons p pre)
  then show ?case by (auto split: option.splits)
qed

lemma search_nickname_Some:
  "search_nickname s = Some n
     \<Longrightarrow> n \<noteq> [] \<and> (\<exists>rest. s = n @ CHR ''('' # rest) \<and> CHR ''('' \<notin> set (tl n) \<and> CHR 0x0A \<notin> set n"
proof -
  assume a: "search_nickname s = Some n"
  let ?P = "\<lambda>x. x \<noteq> CHR ''('' \<and> x \<noteq> CHR 0x0A"
  from a obtain c cs where s: "s = c # cs" by (cases s) (auto simp: search_nickname_def)
  from a s have nl: "c \<noteq> CHR 0x0A" and n: "n = c # takeWhile ?P cs"
    and r: "\<exists>rest. dropWhile ?P cs = CHR ''('' # rest"
    by (auto simp: search_nickname_def Let_def split: if_splits list.splits)
  from r obtain rest where "dropWhile ?P cs = CHR ''('' # rest" by blast
  then have "cs = takeWhile ?P cs @ CHR ''('' # rest"
    by (metis takeWhile_dropWhile_id)
  with s n nl show ?thesis
    by (auto dest: set_takeWhileD)
qed

lemma update_absent: "k \<notin> fst ` set d \<Longrightarrow> AList.update k v d = d @ [(k, v)]"
  by (induction d) auto

text \<open>
  C9. For every option text, an account number is extracted exactly when the text
  contains, between \<open>(\<close> and \<open>)\<close>, a \<open>Z\<close> or a digit followed by at least six digits (a
  purely numeric identifier needs seven digits); the extracted token is such an
  identifier of the text. The nickname, when there is one, is a non-empty start of the text
  that a \<open>(\<close> follows, with no \<open>(\<close> after its first character: the text before the first
  parenthesis. An option with no token changes neither dictionary; an option with a token
  and a nickname, for an account that the ledger does not have yet, appends the account
  with balance 0.0, that nickname and no positions.
\<close>

theorem get_list_of_accounts_extraction:
  "(search_account inner_text \<noteq> None \<longleftrightarrow>
      (\<exists>pre tok post. inner_text = pre @ CHR ''('' # tok @ CHR '')'' # post \<and> account_token tok))
   \<and> (\<forall>tok. search_account inner_text = Some tok \<longrightarrow>
         account_token tok \<and> (\<exists>pre post. inner_text = pre @ CHR ''('' # tok @ CHR '')'' # post))
   \<and> (\<forall>n. search_nickname inner_text = Some n \<longrightarrow>
         n \<noteq> [] \<and> (\<exists>rest. inner_text = n @ CHR ''('' # rest) \<and> CHR ''('' \<notin> set (tl n))
   \<and> (search_account inner_text = None \<longrightarrow> add_option set_flag dicts inner_text = dicts)
   \<and> (\<forall>tok n. search_account inner_text = Some tok \<longrightarrow> search_nickname inner_text = Some n \<longrightarrow>
         \<not> has_account (fst dicts) tok \<longrightarrow>
         add_option True dicts inner_text =
           (fst dicts @ [(tok, \<lparr>balance = Fin 0, nickname = Some n, stocks = []\<rparr>)], snd dicts))"
proof (intro conjI allI impI)
  show "search_account inner_text \<noteq> None \<longleftrightarrow>
      (\<exists>pre tok post. inner_text = pre @ CHR ''('' # tok @ CHR '')'' # post \<and> account_token tok)"
    using search_account_Some search_account_finds by (metis not_Some_eq)
next
  fix tok assume "search_account inner_text = Some tok"
  from search_account_Some [OF this]
  show "account_token tok" "\<exists>pre post. inner_text = pre @ CHR ''('' # tok @ CHR '')'' # post"
    by auto
next
  fix n assume "search_nickname inner_text = Some n"
  from search_nickname_Some [OF this]
  show "n \<noteq> []" "\<exists>rest. inner_text = n @ CHR ''('' # rest" "CHR ''('' \<notin> set (tl n)"
    by auto
next
  assume "search_account inner_text = None"
  then show "add_option set_flag dicts inner_text = dicts"
    by (simp add: add_option_def)
next
  fix tok n
  assume "search_account inner_text = Some tok" "search_nickname inner_text = Some n"
    "\<not> has_account (fst dicts) tok"
  then show "add_option True dicts inner_text =
           (fst dicts @ [(tok, \<lparr>balance = Fin 0, nickname = Some n, stocks = []\<rparr>)], snd dicts)"
    by (simp add: add_option_def set_account_dict_def validate_stocks_def update_absent
        has_account_iff)
qed

theorem get_list_of_accounts_extraction_witness:
  "search_account ''Individual (Z12345678)'' = Some ''Z12345678''
   \<and> account_token ''Z12345678''
   \<and> search_nickname ''Individual (Z12345678)'' = Some ''Individual ''
   \<and> \<not> has_account (fst ([], [])) ''Z12345678''
   \<and> add_option True ([], []) ''Individual (Z12345678)''
       = ([(''Z12345678'', \<lparr>balance = Fin 0, nickname = Some ''Individual '', stocks = []\<rparr>)], [])
   \<and> search_account ''Cash Management'' = None
   \<and> add_option True ([], []) ''Cash Management'' = ([], [])"
proof -
  have a: "search_account ''Individual (Z12345678)'' = Some ''Z12345678''"
    by (simp add: match_account_at_def is_digit_def)
  have n: "search_nickname ''Individual (Z12345678)'' = Some ''Individual ''"
    by (simp add: search_nickname_def)
  have h: "\<not> has_account (fst ([], [])) ''Z12345678''"
    by (simp add: has_account_def)
  have e: "search_account ''Cash Management'' = None"
    by simp
  show ?thesis
    using a n h e
      get_list_of_accounts_extraction [of "''Individual (Z12345678)''" True "([], [])"]
      get_list_of_accounts_extraction [of "''Cash Management''" True "([], [])"]
    by simp
qed

text \<open>
  C9 as it is written takes a purely numeric identifier of six digits: the pattern wants a
  first digit and six more, so the option is passed over and the ledger stays empty.
\<close>

definition spec_account_token :: "string \<Rightarrow> bool" where
  "spec_account_token tok =
     ((case tok of [] \<Rightarrow> False | c # ds \<Rightarrow> c = CHR ''Z'' \<and> list_all is_digit ds \<and> 6 \<le> length ds)
      \<or> (list_all is_digit tok \<and> 6 \<le> length tok))"

theorem get_list_of_accounts_six_digits_counterexample:
  "spec_account_token ''123456''
   \<and> search_account ''Individual (123456)'' = None
   \<and> get_list_of_accounts [] [''Individual (123456)''] True = (None, [])"
  by (simp add: spec_account_token_def is_digit_def match_account_at_def
      get_list_of_accounts_def add_option_def)


section \<open>\<open>getAccountInfo\<close>: the rows of the positions export\<close>

text \<open>
  \<open>starts_with s p\<close> is \<open>s.startswith(p)\<close>, \<open>contains s sub\<close> is \<open>sub in s\<close> and
  \<open>replace s old new\<close> is \<open>s.replace(old, new)\<close> for a non-empty \<open>old\<close>: the occurrences
  are replaced from the left and do not overlap. \<open>py_str\<close> is \<open>str()\<close> of a cell.
\<close>

fun starts_with :: "string \<Rightarrow> string \<Rightarrow> bool" where
  "starts_with s [] = True"
| "starts_with [] (p # ps) = False"
| "starts_with (c # cs) (p # ps) = (c = p \<and> starts_with cs ps)"

fun contains :: "string \<Rightarrow> string \<Rightarrow> bool" where
  "contains [] sub = (sub = [])"
| "contains (c # cs) sub = (starts_with (c # cs) sub \<or> contains cs sub)"

function replace :: "string \<Rightarrow> string \<Rightarrow> string \<Rightarrow> string" where
  "replace [] old new = []"
| "replace (c # cs) old new =
     (if old \<noteq> [] \<and> starts_with (c # cs) old
      then new @ replace (drop (length old) (c # cs)) old new
      else c # replace cs old new)"
  by pat_completeness auto
termination
  by (relation "measure (\<lambda>(s, old, new). length s)") auto

lemma replace_char: "replace s [x] [] = filter (\<lambda>c. c \<noteq> x) s"
  by (induction s) auto

definition py_str :: "string option \<Rightarrow> string" where
  "py_str x = (case x of None \<Rightarrow> ''None'' | Some s \<Rightarrow> s)"

text \<open>
  A row as \<open>csv.DictReader\<close> yields it. The header check before the loop makes sure that
  the seven columns are keys of every row, so a row is a record of them; a cell is a string,
  or None when the line was too short to reach the column.
\<close>

record csv_row =
  Account_Number :: "string option"
  Account_Name :: "string option"
  Symbol :: "string option"
  Description :: "string option"
  Quantity :: "string option"
  Last_Price :: "string option"
  Current_Value :: "string option"

text \<open>
  The body of the loop comes in two halves. \<open>parse_row\<close> is the first, up to the call of
  \<open>create_stock_dict\<close>: it ends in \<open>continue\<close>, in \<open>break\<close>, in an exception, or with the
  account number, the account name and the fields of the position. After the \<open>n/a\<close>
  test and the two defaults, \<open>val\<close>, \<open>last_price\<close> and \<open>quantity\<close> hold a string or an
  int, and \<open>float()\<close> is applied to quantity, last price and value in this order.
  \<open>merge_position\<close> is the second half: \<open>set_account_dict\<close> without overwrite and, when
  it returns False, \<open>add_stock_to_account_dict\<close>.
\<close>

datatype row_outcome =
    Skip
  | Stop
  | Raised pyexn
  | Position string "string option" string pyfloat pyfloat pyfloat

definition parse_row :: "csv_row \<Rightarrow> row_outcome" where
  "parse_row row =
     (case Account_Number row of
        None \<Rightarrow> Skip
      | Some account_num \<Rightarrow>
          if contains account_num ''and'' then Stop
          else (case account_num of
                  [] \<Rightarrow> Raised (IndexError ''string index out of range'')
                | c # _ \<Rightarrow>
                    if c = CHR ''Y'' then Skip
                    else
                      (let val = replace (replace (py_str (Current_Value row)) ''$'' []) ''-'' [];
                           last_price = replace (replace (py_str (Last_Price row)) ''$'' []) ''-'' [];
                           quantity = replace (py_str (Quantity row)) ''-'' [];
                           ticker = py_str (Symbol row)
                       in if contains ticker ''Pending'' then Skip
                          else if length val = 0 then Skip
                          else
                            (let val1 = (if lower val = ''n/a'' then PInt 0 else PStr val);
                                 last_price1 = (if length last_price = 0 then val1 else PStr last_price);
                                 quantity1 = (if length quantity = 0 then PInt 1 else PStr quantity)
                             in case bind_e (py_float quantity1) (\<lambda>q.
                                     bind_e (py_float last_price1) (\<lambda>p.
                                     bind_e (py_float val1) (\<lambda>v. Inr (q, p, v)))) of
                                  Inl e \<Rightarrow> Raised e
                                | Inr (q, p, v) \<Rightarrow>
                                    Position account_num (Account_Name row) ticker q p v))))"

datatype control = Next | Break | Raise pyexn

definition merge_position ::
  "ledger \<Rightarrow> string \<Rightarrow> string option \<Rightarrow> string \<Rightarrow> pyfloat \<Rightarrow> pyfloat \<Rightarrow> pyfloat \<Rightarrow> control \<times> ledger" where
  "merge_position account_dict account_num nick ticker q p v =
     (let stock_list = [create_stock_dict ticker q p v]
      in case set_account_dict account_dict account_num (Some v) nick (Some stock_list) False of
           (True, d) \<Rightarrow> (Next, d)
         | (False, d) \<Rightarrow>
             (case add_stock_to_account_dict d account_num (hd stock_list) of
                (Inl e, d') \<Rightarrow> (Raise e, d')
              | (Inr r, d') \<Rightarrow> (Next, d')))"

definition process_row :: "ledger \<Rightarrow> csv_row \<Rightarrow> control \<times> ledger" where
  "process_row account_dict row =
     (case parse_row row of
        Skip \<Rightarrow> (Next, account_dict)
      | Stop \<Rightarrow> (Break, account_dict)
      | Raised e \<Rightarrow> (Raise e, account_dict)
      | Position account_num nick ticker q p v \<Rightarrow>
          merge_position account_dict account_num nick ticker q p v)"

fun rows_loop :: "ledger \<Rightarrow> csv_row list \<Rightarrow> pyexn option \<times> ledger" where
  "rows_loop account_dict [] = (None, account_dict)"
| "rows_loop account_dict (row # rest) =
     (case process_row account_dict row of
        (Next, d) \<Rightarrow> rows_loop d rest
      | (Break, d) \<Rightarrow> (None, d)
      | (Raise e, d) \<Rightarrow> (Some e, d))"




lemma set_strip: "set (strip s) \<subseteq> set s"
proof
  fix x assume "x \<in> set (strip s)"
  then have "x \<in> set (dropWhile is_space (rev (dropWhile is_space s)))"
    by (simp add: strip_def)
  then have "x \<in> set (rev (dropWhile is_space s))" by (rule set_dropWhileD)
  then have "x \<in> set (dropWhile is_space s)" by simp
  then show "x \<in> set s" by (rule set_dropWhileD)
qed

lemma scale10_nonneg: "0 \<le> scale10 m e"
  by (simp add: scale10_def)

lemma parse_decimal_nonneg: "parse_decimal r = Some x \<Longrightarrow> 0 \<le> x"
  by (auto simp: parse_decimal_def Let_def scale10_nonneg split: prod.splits option.splits if_splits)

lemma parse_abs_not_negative: "parse_abs r = Some x \<Longrightarrow> \<not> flt x (Fin 0)"
  by (auto simp: parse_abs_def split: if_splits dest: parse_decimal_nonneg)

lemma parse_signed_not_negative:
  "CHR ''-'' \<notin> set u \<Longrightarrow> parse_signed u = Some x \<Longrightarrow> \<not> flt x (Fin 0)"
  by (cases u) (auto simp: parse_signed_def split: if_splits dest: parse_abs_not_negative)

lemma float_of_str_not_negative:
  assumes "CHR ''-'' \<notin> set s" and "float_of_str s = Inr x"
  shows "\<not> flt x (Fin 0)"
proof -
  have "CHR ''-'' \<notin> set (filter (\<lambda>c. c \<noteq> CHR ''_'') (strip s))"
    using assms(1) set_strip by fastforce
  moreover have "parse_signed (filter (\<lambda>c. c \<noteq> CHR ''_'') (strip s)) = Some x"
    using assms(2) by (auto simp: float_of_str_def Let_def split: if_splits option.splits)
  ultimately show ?thesis by (rule parse_signed_not_negative)
qed

lemma minus_removed: "CHR ''-'' \<notin> set (replace s ''-'' [])"
  by (simp add: replace_char)

text \<open>The three values handed to \<open>float()\<close>: a stripped string, or the int 0 or 1.\<close>

lemma py_float_not_negative:
  assumes "w = PInt 0 \<or> w = PInt 1 \<or> (\<exists>s. w = PStr s \<and> CHR ''-'' \<notin> set s)"
    and "py_float w = Inr x"
  shows "\<not> flt x (Fin 0)"
  using assms by (auto dest: float_of_str_not_negative)

lemma py_float_raises:
  assumes "w = PInt 0 \<or> w = PInt 1 \<or> (\<exists>s. w = PStr s)"
    and "py_float w = Inl e"
  shows "\<exists>m. e = ValueError m"
  using assms by (auto simp: float_of_str_def Let_def split: if_splits option.splits)

lemma parse_row_Position:
  assumes "parse_row row = Position acct nick t q p v"
  shows "Account_Number row = Some acct \<and> acct \<noteq> [] \<and> nick = Account_Name row
         \<and> t = py_str (Symbol row)
         \<and> \<not> flt q (Fin 0) \<and> \<not> flt p (Fin 0) \<and> \<not> flt v (Fin 0)"
proof -
  let ?val = "replace (replace (py_str (Current_Value row)) ''$'' []) ''-'' []"
  let ?lp = "replace (replace (py_str (Last_Price row)) ''$'' []) ''-'' []"
  let ?qty = "replace (py_str (Quantity row)) ''-'' []"
  let ?val1 = "if lower ?val = ''n/a'' then PInt 0 else PStr ?val"
  let ?lp1 = "if length ?lp = 0 then ?val1 else PStr ?lp"
  let ?qty1 = "if length ?qty = 0 then PInt 1 else PStr ?qty"
  from assms have hd: "Account_Number row = Some acct \<and> acct \<noteq> [] \<and> nick = Account_Name row
         \<and> t = py_str (Symbol row)"
    and fl: "py_float ?qty1 = Inr q \<and> py_float ?lp1 = Inr p \<and> py_float ?val1 = Inr v"
    unfolding parse_row_def Let_def bind_e_def
    by (auto split: option.splits list.splits if_splits sum.splits)
  have "\<not> flt q (Fin 0)"
    by (rule py_float_not_negative [of ?qty1]) (use fl minus_removed in auto)
  moreover have "\<not> flt p (Fin 0)"
    by (rule py_float_not_negative [of ?lp1]) (use fl minus_removed in auto)
  moreover have "\<not> flt v (Fin 0)"
    by (rule py_float_not_negative [of ?val1]) (use fl minus_removed in auto)
  ultimately show ?thesis using hd by simp
qed

lemma parse_row_Raised:
  assumes "parse_row row = Raised e" and "Account_Number row \<noteq> Some []"
  shows "\<exists>m. e = ValueError m"
proof -
  let ?val = "replace (replace (py_str (Current_Value row)) ''$'' []) ''-'' []"
  let ?lp = "replace (replace (py_str (Last_Price row)) ''$'' []) ''-'' []"
  let ?qty = "replace (py_str (Quantity row)) ''-'' []"
  let ?val1 = "if lower ?val = ''n/a'' then PInt 0 else PStr ?val"
  let ?lp1 = "if length ?lp = 0 then ?val1 else PStr ?lp"
  let ?qty1 = "if length ?qty = 0 then PInt 1 else PStr ?qty"
  from assms have "py_float ?qty1 = Inl e \<or> py_float ?lp1 = Inl e \<or> py_float ?val1 = Inl e"
    unfolding parse_row_def Let_def bind_e_def
    by (auto split: option.splits list.splits if_splits sum.splits)
  then show ?thesis
    using py_float_raises [of ?qty1 e] py_float_raises [of ?lp1 e] py_float_raises [of ?val1 e]
    by (auto split: if_splits)
qed

lemma validate_created: "validate_stocks (Some [create_stock_dict t q p v])"
  by (simp add: validate_stocks_def check_stock_def is_none_check_def type_check_def
      bind_e_def subscript_def create_stock_dict_def)

lemma merge_position_result:
  "\<exists>d'. merge_position d acct nick t q p v = (Next, d')
      \<and> map_of d' acct =
          Some (case map_of d acct of
                  None \<Rightarrow> \<lparr>balance = v, nickname = nick, stocks = [create_stock_dict t q p v]\<rparr>
                | Some a \<Rightarrow> a\<lparr>stocks := stocks a @ [create_stock_dict t q p v],
                              balance := fadd (balance a) v\<rparr>)
      \<and> (\<forall>k. k \<noteq> acct \<longrightarrow> map_of d' k = map_of d k)"
proof (cases "map_of d acct")
  case None
  then show ?thesis
    by (simp add: merge_position_def set_account_dict_def has_account_def validate_created
        update_conv')
next
  case (Some a)
  have v: "create_stock_dict t q p v ''value'' = Some (PFloat v)"
    by (simp add: create_stock_dict_def)
  have "set_account_dict d acct (Some v) nick (Some [create_stock_dict t q p v]) False = (False, d)"
    using Some by (simp add: set_account_dict_def has_account_def)
  moreover have "add_stock_to_account_dict d acct (create_stock_dict t q p v)
      = (Inr True, AList.update acct (a\<lparr>stocks := stocks a @ [create_stock_dict t q p v],
                              balance := fadd (balance a) v\<rparr>)
                     (AList.update acct (a\<lparr>stocks := stocks a @ [create_stock_dict t q p v]\<rparr>) d))"
    using Some v by (simp add: add_stock_to_account_dict_def Let_def bind_e_def subscript_def)
  ultimately show ?thesis
    using Some by (simp add: merge_position_def update_conv')
qed

text \<open>
  C5. For every row of the export and every ledger: a row whose account number is missing
  is skipped. A row whose account number is not the empty string raises nothing but the
  ValueError of \<open>float()\<close> on a quantity, last price or value that is not a number, and the
  ledger is then as before. Every accepted row has a non-empty account number; its ticker
  is the Symbol cell as it is; its quantity, last price and value are floats none of which
  is negative; and it is merged into the ledger, as a new account whose balance is the
  value, or appended to the account it belongs to, whose balance grows by the value.
\<close>

theorem getAccountInfo_rows:
  "(Account_Number row = None \<longrightarrow> process_row d row = (Next, d))
   \<and> (Account_Number row \<noteq> Some [] \<longrightarrow>
        (\<forall>e d'. process_row d row = (Raise e, d') \<longrightarrow> d' = d \<and> (\<exists>m. e = ValueError m)))
   \<and> (\<forall>acct nick t q p v. parse_row row = Position acct nick t q p v \<longrightarrow>
        Account_Number row = Some acct \<and> acct \<noteq> [] \<and> t = py_str (Symbol row)
        \<and> \<not> flt q (Fin 0) \<and> \<not> flt p (Fin 0) \<and> \<not> flt v (Fin 0)
        \<and> (\<exists>d'. process_row d row = (Next, d')
              \<and> map_of d' acct =
                  Some (case map_of d acct of
                          None \<Rightarrow> \<lparr>balance = v, nickname = nick,
                                    stocks = [create_stock_dict t q p v]\<rparr>
                        | Some a \<Rightarrow> a\<lparr>stocks := stocks a @ [create_stock_dict t q p v],
                                      balance := fadd (balance a) v\<rparr>)))"
proof (intro conjI allI impI)
  assume "Account_Number row = None"
  then show "process_row d row = (Next, d)"
    by (simp add: process_row_def parse_row_def)
next
  fix e d'
  assume ne: "Account_Number row \<noteq> Some []" and r: "process_row d row = (Raise e, d')"
  show "d' = d" "\<exists>m. e = ValueError m"
  proof -
    from r have "parse_row row = Raised e \<and> d' = d"
      using merge_position_result
      by (cases "parse_row row") (auto simp: process_row_def, (metis control.distinct fst_conv)+)
    then show "d' = d" "\<exists>m. e = ValueError m"
      using parse_row_Raised [OF _ ne] by auto
  qed
next
  fix acct nick t q p v
  assume a: "parse_row row = Position acct nick t q p v"
  from parse_row_Position [OF a]
  show "Account_Number row = Some acct" "acct \<noteq> []" "t = py_str (Symbol row)"
    "\<not> flt q (Fin 0)" "\<not> flt p (Fin 0)" "\<not> flt v (Fin 0)"
    by auto
  from merge_position_result [of d acct nick t q p v] a
  show "\<exists>d'. process_row d row = (Next, d')
              \<and> map_of d' acct =
                  Some (case map_of d acct of
                          None \<Rightarrow> \<lparr>balance = v, nickname = nick,
                                    stocks = [create_stock_dict t q p v]\<rparr>
                        | Some a \<Rightarrow> a\<lparr>stocks := stocks a @ [create_stock_dict t q p v],
                                      balance := fadd (balance a) v\<rparr>)"
    by (auto simp: process_row_def)
qed

theorem getAccountInfo_rows_witness:
  "process_row [] \<lparr>Account_Number = None, Account_Name = None,
        Symbol = None, Description = None, Quantity = None,
        Last_Price = None, Current_Value = None\<rparr> = (Next, [])
   \<and> Account_Number \<lparr>Account_Number = Some ''Z12345678'', Account_Name = Some ''Individual'',
        Symbol = Some ''NVDA'', Description = Some ''NVIDIA CORP'', Quantity = Some ''2'',
        Last_Price = Some ''$120.00'', Current_Value = Some ''abc''\<rparr> \<noteq> Some []
   \<and> process_row [] \<lparr>Account_Number = Some ''Z12345678'', Account_Name = Some ''Individual'',
        Symbol = Some ''NVDA'', Description = Some ''NVIDIA CORP'', Quantity = Some ''2'',
        Last_Price = Some ''$120.00'', Current_Value = Some ''abc''\<rparr> = (Raise (ValueError ''could not convert string to float''), [])
   \<and> parse_row \<lparr>Account_Number = Some ''Z12345678'', Account_Name = Some ''Individual'',
        Symbol = Some ''NVDA'', Description = Some ''NVIDIA CORP'', Quantity = Some ''2'',
        Last_Price = Some ''$120.00'', Current_Value = Some ''$240.00''\<rparr> = Position ''Z12345678'' (Some ''Individual'') ''NVDA'' (Fin 2) (Fin 120) (Fin 240)
   \<and> process_row [] \<lparr>Account_Number = Some ''Z12345678'', Account_Name = Some ''Individual'',
        Symbol = Some ''NVDA'', Description = Some ''NVIDIA CORP'', Quantity = Some ''2'',
        Last_Price = Some ''$120.00'', Current_Value = Some ''$240.00''\<rparr>
       = (Next, [(''Z12345678'', \<lparr>balance = Fin 240, nickname = Some ''Individual'',
                   stocks = [create_stock_dict ''NVDA'' (Fin 2) (Fin 120) (Fin 240)]\<rparr>)])"
proof -
  have n: "Account_Number \<lparr>Account_Number = None, Account_Name = None,
        Symbol = None, Description = None, Quantity = None,
        Last_Price = None, Current_Value = None\<rparr> = None"
    by simp
  have e: "Account_Number \<lparr>Account_Number = Some ''Z12345678'', Account_Name = Some ''Individual'',
        Symbol = Some ''NVDA'', Description = Some ''NVIDIA CORP'', Quantity = Some ''2'',
        Last_Price = Some ''$120.00'', Current_Value = Some ''abc''\<rparr> \<noteq> Some []"
    by simp
  have r: "process_row [] \<lparr>Account_Number = Some ''Z12345678'', Account_Name = Some ''Individual'',
        Symbol = Some ''NVDA'', Description = Some ''NVIDIA CORP'', Quantity = Some ''2'',
        Last_Price = Some ''$120.00'', Current_Value = Some ''abc''\<rparr> = (Raise (ValueError ''could not convert string to float''), [])"
    by (simp add: process_row_def parse_row_def merge_position_def py_str_def bind_e_def
        float_of_str_simps set_account_dict_def has_account_def validate_created)
  have p: "parse_row \<lparr>Account_Number = Some ''Z12345678'', Account_Name = Some ''Individual'',
        Symbol = Some ''NVDA'', Description = Some ''NVIDIA CORP'', Quantity = Some ''2'',
        Last_Price = Some ''$120.00'', Current_Value = Some ''$240.00''\<rparr> = Position ''Z12345678'' (Some ''Individual'') ''NVDA'' (Fin 2) (Fin 120) (Fin 240)"
    by (simp add: process_row_def parse_row_def merge_position_def py_str_def bind_e_def
        float_of_str_simps set_account_dict_def has_account_def validate_created)
  show ?thesis
    using n e r p
      getAccountInfo_rows [of "\<lparr>Account_Number = None, Account_Name = None,
        Symbol = None, Description = None, Quantity = None,
        Last_Price = None, Current_Value = None\<rparr>" "[]"]
      getAccountInfo_rows [of "\<lparr>Account_Number = Some ''Z12345678'', Account_Name = Some ''Individual'',
        Symbol = Some ''NVDA'', Description = Some ''NVIDIA CORP'', Quantity = Some ''2'',
        Last_Price = Some ''$120.00'', Current_Value = Some ''abc''\<rparr>" "[]"]
      getAccountInfo_rows [of "\<lparr>Account_Number = Some ''Z12345678'', Account_Name = Some ''Individual'',
        Symbol = Some ''NVDA'', Description = Some ''NVIDIA CORP'', Quantity = Some ''2'',
        Last_Price = Some ''$120.00'', Current_Value = Some ''$240.00''\<rparr>" "[]"]
    by (simp add: process_row_def merge_position_def set_account_dict_def has_account_def
        validate_created)
qed

text \<open>
  C5 as it is written fails on a row whose value is not a number, which raises instead of
  being left out, and on a row with an empty Symbol cell, which is accepted with an empty
  ticker.
\<close>

theorem getAccountInfo_rows_counterexample:
  "process_row [] \<lparr>Account_Number = Some ''Z12345678'', Account_Name = Some ''Individual'',
        Symbol = Some ''NVDA'', Description = Some ''NVIDIA CORP'', Quantity = Some ''2'',
        Last_Price = Some ''$120.00'', Current_Value = Some ''abc''\<rparr> = (Raise (ValueError ''could not convert string to float''), [])
   \<and> parse_row \<lparr>Account_Number = Some ''Z12345678'', Account_Name = Some ''Individual'',
        Symbol = Some '''', Description = Some ''NVIDIA CORP'', Quantity = Some ''2'',
        Last_Price = Some ''$120.00'', Current_Value = Some ''$240.00''\<rparr> = Position ''Z12345678'' (Some ''Individual'') [] (Fin 2) (Fin 120) (Fin 240)"
  by (simp add: process_row_def parse_row_def merge_position_def py_str_def bind_e_def
        float_of_str_simps set_account_dict_def has_account_def validate_created)

section \<open>\<open>transaction\<close>: the order workflow\<close>

subsection \<open>More of Python\<close>

text \<open>
  \<open>upper\<close> and \<open>title\<close> are \<open>str.upper()\<close> and \<open>str.title()\<close> on ASCII letters: in a
  title a letter is upper case when no letter stands before it and lower case otherwise.

  \<open>py_round x n\<close> is \<open>round(x, n)\<close> on a float: the nearest multiple of \<open>10 ** -n\<close>, a
  tie going to the even one. The value is the decimal one (a price such as \<open>0.1\<close> is one
  tenth), so a tie here is a tie of the decimal values; an infinity or NaN is returned
  as it is.
\<close>

definition upper_char :: "char \<Rightarrow> char" where
  "upper_char c = (let n = (of_char c :: nat) in if 97 \<le> n \<and> n \<le> 122 then char_of (n - 32) else c)"

definition upper :: "string \<Rightarrow> string" where
  "upper s = map upper_char s"

definition is_alpha :: "char \<Rightarrow> bool" where
  "is_alpha c = (let n = (of_char c :: nat) in (65 \<le> n \<and> n \<le> 90) \<or> (97 \<le> n \<and> n \<le> 122))"

fun title_from :: "bool \<Rightarrow> string \<Rightarrow> string" where
  "title_from prev_cased [] = []"
| "title_from prev_cased (c # cs) =
     (if is_alpha c then (if prev_cased then lower_char c else upper_char c) # title_from True cs
      else c # title_from False cs)"

definition title :: "string \<Rightarrow> string" where
  "title s = title_from False s"

definition round_half_even :: "real \<Rightarrow> int" where
  "round_half_even x =
     (let f = \<lfloor>x\<rfloor>; d = x - of_int f
      in if d < 1 / 2 then f else if 1 / 2 < d then f + 1 else if even f then f else f + 1)"

fun py_round :: "pyfloat \<Rightarrow> nat \<Rightarrow> pyfloat" where
  "py_round (Fin x) ndigits = Fin (of_int (round_half_even (x * 10 ^ ndigits)) / 10 ^ ndigits)"
| "py_round PInf ndigits = PInf"
| "py_round NInf ndigits = NInf"
| "py_round NaN ndigits = NaN"

subsection \<open>The browser page\<close>

text \<open>
  The function drives a Playwright page. A page call is a statement or expression of the
  source that asks the browser for something: \<open>page.goto(url)\<close>,
  \<open>locator.click()\<close>, \<open>locator.is_visible()\<close>, and so on. Building a locator
  (\<open>get_by_role\<close>, \<open>get_by_label\<close>, \<open>get_by_text\<close>, \<open>locator\<close>, \<open>filter\<close>) asks nothing
  and is part of the call made on it. \<open>page.query_selector(s).click()\<close> and
  \<open>page.query_selector(s).text_content()\<close> are one call each, whose exception may be
  the AttributeError of a selector that matched nothing; so is
  \<open>page.wait_for_selector(s, timeout).text_content()\<close>.

  A text handed to the page is a string, or a prefix followed by \<open>str(x)\<close> of a float
  (\<open>StrFloat\<close>): the digits Python prints for a float are not modelled.

  The page is any function from the number of the call to its outcome: an exception, or a
  return, read as a bool by \<open>is_visible\<close>, as an optional string by \<open>text_content\<close> and
  \<open>page.url\<close>, and not at all by the other calls. The trace lists the calls made with
  their outcomes, in order; a computation takes the page and the trace so far and gives
  an exception or a value, and the trace extended.
\<close>

datatype pytext = Str string | StrFloat string pyfloat

datatype locator =
    Css string
  | CssHasText string string
  | ByLabel string
  | ByRole string string bool
  | ByRoleHasText string string
  | ByText pytext bool
  | ErrorCritical

datatype call =
    WaitForLoadState string
  | GetUrl
  | Goto string
  | Reload
  | QueryClick string
  | QueryTextContent string
  | Click locator
  | Fill locator pytext
  | Press locator string
  | Check locator
  | WaitFor locator "nat option" string
  | IsVisible locator
  | TextContent locator nat
  | WaitForSelectorTextContent string nat

datatype outcome = Raises pyexn | Returns bool "string option"

type_synonym page = "nat \<Rightarrow> outcome"
type_synonym trace = "(call \<times> outcome) list"
type_synonym 'a io = "page \<Rightarrow> trace \<Rightarrow> (pyexn + 'a) \<times> trace"

text \<open>
  Sequencing, and \<open>try: m except ...: h else: k\<close>. A handler is chosen by the exception:
  \<open>on_timeout\<close> is \<open>except PlaywrightTimeoutError as toe\<close> and lets any other exception
  pass, \<open>on_exception\<close> is \<open>except Exception\<close>. \<open>only_if\<close> is an \<open>if\<close> without
  \<open>else\<close>.
\<close>

definition return :: "'a \<Rightarrow> 'a io" where
  "return x pg tr = (Inr x, tr)"

definition raise :: "pyexn \<Rightarrow> 'a io" where
  "raise e pg tr = (Inl e, tr)"

definition bind :: "'a io \<Rightarrow> ('a \<Rightarrow> 'b io) \<Rightarrow> 'b io" where
  "bind m f pg tr = (case m pg tr of (Inl e, tr') \<Rightarrow> (Inl e, tr') | (Inr x, tr') \<Rightarrow> f x pg tr')"

definition seq :: "'a io \<Rightarrow> 'b io \<Rightarrow> 'b io" where
  "seq m k = bind m (\<lambda>_. k)"

definition try_except_else :: "'a io \<Rightarrow> (pyexn \<Rightarrow> 'b io option) \<Rightarrow> ('a \<Rightarrow> 'b io) \<Rightarrow> 'b io" where
  "try_except_else m handler k pg tr =
     (case m pg tr of
        (Inl e, tr') \<Rightarrow> (case handler e of None \<Rightarrow> (Inl e, tr') | Some h \<Rightarrow> h pg tr')
      | (Inr x, tr') \<Rightarrow> k x pg tr')"

definition on_timeout :: "(string \<Rightarrow> 'a io) \<Rightarrow> pyexn \<Rightarrow> 'a io option" where
  "on_timeout h e = (case e of PlaywrightTimeoutError m \<Rightarrow> Some (h m) | _ \<Rightarrow> None)"

definition on_exception :: "'a io \<Rightarrow> pyexn \<Rightarrow> 'a io option" where
  "on_exception h e = Some h"

definition page_call :: "call \<Rightarrow> (bool \<times> string option) io" where
  "page_call c pg tr =
     (case pg (length tr) of
        Raises e \<Rightarrow> (Inl e, tr @ [(c, Raises e)])
      | Returns b t \<Rightarrow> (Inr (b, t), tr @ [(c, Returns b t)]))"

definition act :: "call \<Rightarrow> unit io" where
  "act c = bind (page_call c) (\<lambda>r. return ())"

definition is_visible :: "locator \<Rightarrow> bool io" where
  "is_visible l = bind (page_call (IsVisible l)) (\<lambda>r. return (fst r))"

definition read_text :: "call \<Rightarrow> string option io" where
  "read_text c = bind (page_call c) (\<lambda>r. return (snd r))"

definition only_if :: "bool \<Rightarrow> unit io \<Rightarrow> unit io" where
  "only_if c m = (if c then m else return ())"

subsection \<open>The steps of \<open>transaction\<close>\<close>

text \<open>
  The body of the \<open>try\<close>, cut at the comments of the source: going to the trade page and
  choosing the account; entering the symbol and reading the last price off the quote
  panel; expanding the ticket; extended hours, which set \<open>extended\<close> and \<open>precision\<close>;
  the action; the quantity; the order type; the preview.
\<close>

definition order_entry_url :: string where
  "order_entry_url = ''https://digital.fidelity.com/ftgw/digital/trade-equity/index/orderEntry''"

definition select_account :: "string \<Rightarrow> unit io" where
  "select_account account =
     seq (act (WaitForLoadState ''load''))
    (bind (read_text GetUrl) (\<lambda>url.
     seq (only_if (url \<noteq> Some order_entry_url) (act (Goto order_entry_url)))
    (seq (act (QueryClick ''#dest-acct-dropdown''))
    (bind (is_visible (ByRoleHasText ''option'' (upper account))) (\<lambda>shown.
     seq (only_if (\<not> shown) (seq (act Reload) (act (QueryClick ''#dest-acct-dropdown''))))
         (act (Click (ByRoleHasText ''option'' (upper account)))))))))"

definition enter_symbol :: "string \<Rightarrow> string io" where
  "enter_symbol stock =
     seq (act (Click (ByLabel ''Symbol'')))
    (seq (act (Fill (ByLabel ''Symbol'') (Str stock)))
    (seq (act (Press (ByLabel ''Symbol'') ''Enter''))
    (seq (act (WaitFor (Css ''#quote-panel'') (Some 2000) ''visible''))
    (bind (read_text (QueryTextContent ''#eq-ticket__last-price > span.last-price'')) (\<lambda>last_price.
       case last_price of
         None \<Rightarrow> raise (AttributeError ''NoneType object has no attribute replace'')
       | Some t \<Rightarrow> return (replace t ''$'' []))))))"

definition expand_ticket :: "unit io" where
  "expand_ticket =
     bind (is_visible (ByRole ''button'' ''View expanded ticket'' False)) (\<lambda>collapsed.
       only_if collapsed
         (seq (act (Click (ByRole ''button'' ''View expanded ticket'' False)))
              (act (WaitFor (ByRole ''button'' ''Calculate shares'' False) (Some 5000) ''visible''))))"

definition extended_hours :: "(bool \<times> nat) io" where
  "extended_hours =
     bind (is_visible (ByText (Str ''Extended hours trading'') False)) (\<lambda>available.
       if available then
         bind (is_visible (ByText (Str ''Extended hours trading: OffUntil 8:00 PM ET'') False)) (\<lambda>off.
           seq (only_if off (act (Check (ByText (Str ''Extended hours trading: OffUntil 8:00 PM ET'') False))))
               (return (True, 2)))
       else return (False, 3))"

definition select_action :: "string \<Rightarrow> unit io" where
  "select_action action =
     seq (act (QueryClick ''.eq-ticket-action-label''))
    (seq (act (WaitFor (ByRole ''option'' (title (lower action)) True) None ''visible''))
         (act (Click (ByRole ''option'' (title (lower action)) True))))"

definition enter_quantity :: "pyfloat \<Rightarrow> unit io" where
  "enter_quantity quantity =
     seq (act (Click (CssHasText ''#eqt-mts-stock-quatity div'' ''Quantity'')))
         (act (Fill (ByText (Str ''Quantity'') True) (StrFloat [] quantity)))"

definition order_type :: "string \<Rightarrow> bool \<Rightarrow> nat \<Rightarrow> string \<Rightarrow> unit io" where
  "order_type last_price extended precision action =
     (case float_of_str last_price of
        Inl e \<Rightarrow> raise e
      | Inr p \<Rightarrow>
          if flt p (Fin 1) \<or> extended then
            (let difference_price = (if fgt p (Fin (1 / 10)) then Fin (1 / 100) else Fin (1 / 10000));
                 wanted_price = (if lower action = ''buy''
                                 then py_round (fadd p difference_price) precision
                                 else py_round (fsub p difference_price) precision)
             in seq (act (QueryClick ''#dest-dropdownlist-button-ordertype > span:nth-child(1)''))
               (seq (act (Click (ByRole ''option'' ''Limit'' True)))
               (seq (act (Click (ByText (Str ''Limit price'') True)))
                    (act (Fill (ByLabel ''Limit price'') (StrFloat [] wanted_price))))))
          else
            seq (act (Click (Css ''#order-type-container-id'')))
                (act (Click (ByRole ''option'' ''Market'' True))))"

text \<open>
  The second component of the result is None, a string, or the exception object itself,
  which is what \<open>return (False, e)\<close> hands back.

  \<open>error_report\<close> is the handler of the timeout on the \<open>Place order\<close> button. The loop
  over the characters of the message drops a space that follows a space, where the
  character before the first one is \<open>error_message[-1]\<close>, the last one, and drops every
  newline and tab. A message that is None makes \<open>enumerate\<close> raise a TypeError.
\<close>

datatype message = MNone | MStr string | MExn pyexn

fun filter_error :: "char \<Rightarrow> string \<Rightarrow> string" where
  "filter_error prev [] = []"
| "filter_error prev (character # rest) =
     (if (character = CHR '' '' \<and> prev = CHR '' '') \<or> character = CHR 0x0A \<or> character = CHR 0x09
      then filter_error character rest
      else character # filter_error character rest)"

definition inline_alert_selector :: string where
  "inline_alert_selector =
     ''.pvd-inline-alert__content font[color='' @ [CHR 0x22] @ ''red'' @ [CHR 0x22] @ '']''"

definition close_dialog :: "string option \<Rightarrow> string option io" where
  "close_dialog error_message =
     try_except_else (act (Click (ByRole ''button'' ''Close dialog'' False)))
       (on_exception (return error_message)) (\<lambda>_. return error_message)"

definition error_report :: "(bool \<times> message) io" where
  "error_report =
     bind (try_except_else (read_text (TextContent ErrorCritical 2000))
             (on_exception (return (Some []))) close_dialog) (\<lambda>m1.
     bind (if m1 = Some []
           then try_except_else
                  (read_text (WaitForSelectorTextContent inline_alert_selector 2000))
                  (on_exception (return m1)) close_dialog
           else return m1) (\<lambda>m2.
     if m2 \<noteq> Some [] then
       (case m2 of
          None \<Rightarrow> raise (TypeError ''NoneType object is not iterable'')
        | Some error_message \<Rightarrow>
            (let filtered_error = filter_error (last error_message) error_message;
                 filtered_error = strip (replace filtered_error ''critical'' [])
             in return (False, MStr (replace filtered_error [CHR 0x0A] []))))
     else return (False, MStr ''Could not retrieve error message from popup'')))"

definition place_order :: "bool \<Rightarrow> (bool \<times> message) io" where
  "place_order dry =
     (if \<not> dry then
        seq (act (Click (ByRole ''button'' ''Place order'' False)))
            (try_except_else
               (act (WaitFor (ByText (Str ''Order received'') True) (Some 5000) ''visible''))
               (on_timeout (\<lambda>toe. return (False, MStr (''Timed out waiting for '' @ [CHR 0x27] @ ''Order received'' @ [CHR 0x27] @ '': '' @ toe))))
               (\<lambda>_. return (True, MNone)))
      else return (True, MNone))"

definition check_preview :: "string \<Rightarrow> pyfloat \<Rightarrow> string \<Rightarrow> string \<Rightarrow> bool \<Rightarrow> (bool \<times> message) io" where
  "check_preview stock quantity action account dry =
     bind (is_visible (CssHasText ''preview'' (upper account))) (\<lambda>v1.
       if \<not> v1 then return (False, MStr ''Order preview is not what is expected'') else
     bind (is_visible (ByText (Str (''Symbol'' @ upper stock)) True)) (\<lambda>v2.
       if \<not> v2 then return (False, MStr ''Order preview is not what is expected'') else
     bind (is_visible (ByText (Str (''Action'' @ title (lower action))) False)) (\<lambda>v3.
       if \<not> v3 then return (False, MStr ''Order preview is not what is expected'') else
     bind (is_visible (ByText (StrFloat ''Quantity'' quantity) False)) (\<lambda>v4.
       if \<not> v4 then return (False, MStr ''Order preview is not what is expected'') else
     place_order dry))))"

definition preview :: "string \<Rightarrow> pyfloat \<Rightarrow> string \<Rightarrow> string \<Rightarrow> bool \<Rightarrow> (bool \<times> message) io" where
  "preview stock quantity action account dry =
     seq (act (Click (ByRole ''button'' ''Preview order'' False)))
         (try_except_else
            (act (WaitFor (ByRole ''button'' ''Place order'' False) (Some 5000) ''visible''))
            (on_timeout (\<lambda>toe. error_report))
            (\<lambda>_. check_preview stock quantity action account dry))"

text \<open>
  \<open>transaction_try\<close> is the body of the outer \<open>try\<close>, \<open>transaction\<close> the function: it
  starts from the empty trace, and its two handlers turn an exception of the body into a
  result. The trace is returned beside the result, to say what the function did.
\<close>

definition transaction_try :: "string \<Rightarrow> pyfloat \<Rightarrow> string \<Rightarrow> string \<Rightarrow> bool \<Rightarrow> (bool \<times> message) io" where
  "transaction_try stock quantity action account dry =
     seq (select_account account)
    (bind (enter_symbol stock) (\<lambda>last_price.
     seq expand_ticket
    (bind extended_hours (\<lambda>ext.
     seq (select_action action)
    (seq (enter_quantity quantity)
    (seq (order_type last_price (fst ext) (snd ext) action)
         (preview stock quantity action account dry)))))))"

definition transaction ::
  "page \<Rightarrow> string \<Rightarrow> pyfloat \<Rightarrow> string \<Rightarrow> string \<Rightarrow> bool \<Rightarrow> (bool \<times> message) \<times> trace" where
  "transaction pg stock quantity action account dry =
     (case transaction_try stock quantity action account dry pg [] of
        (Inr r, tr) \<Rightarrow> (r, tr)
      | (Inl (PlaywrightTimeoutError toe), tr) \<Rightarrow>
          ((False, MStr (''Driver timed out. Order not completed: '' @ toe)), tr)
      | (Inl e, tr) \<Rightarrow> ((False, MExn e), tr))"


subsection \<open>No exception leaves \<open>transaction\<close>\<close>

text \<open>
  \<open>raised tr\<close>: some call of the trace raised. A computation is \<open>strict\<close> when a call
  that raises ends it with an exception; it is \<open>failing\<close> when a call that raises ends it
  with an exception or with a result whose flag is False and whose message is not None.
  The steps before the preview are strict. The preview catches exceptions and is failing:
  each handler either returns such a result whatever happens (\<open>always_fails\<close>) or passes
  the exception on.
\<close>

definition raised :: "trace \<Rightarrow> bool" where
  "raised tr = list_ex (\<lambda>(c, out). case out of Raises e \<Rightarrow> True | Returns b t \<Rightarrow> False) tr"

definition failure :: "pyexn + (bool \<times> message) \<Rightarrow> bool" where
  "failure r = (case r of Inl e \<Rightarrow> True | Inr x \<Rightarrow> \<not> fst x \<and> snd x \<noteq> MNone)"

definition strict :: "'a io \<Rightarrow> bool" where
  "strict m = (\<forall>pg tr r tr'. m pg tr = (r, tr') \<longrightarrow> \<not> raised tr \<longrightarrow> raised tr' \<longrightarrow> isl r)"

definition failing :: "(bool \<times> message) io \<Rightarrow> bool" where
  "failing m = (\<forall>pg tr r tr'. m pg tr = (r, tr') \<longrightarrow> \<not> raised tr \<longrightarrow> raised tr' \<longrightarrow> failure r)"

definition always_fails :: "(bool \<times> message) io \<Rightarrow> bool" where
  "always_fails m = (\<forall>pg tr r tr'. m pg tr = (r, tr') \<longrightarrow> failure r)"

named_theorems io_intros

lemma strict_clean:
  assumes "strict m" and "m pg tr = (Inr x, tr1)" and "\<not> raised tr"
  shows "\<not> raised tr1"
proof
  assume "raised tr1"
  with assms have "isl (Inr x :: pyexn + 'a)" unfolding strict_def by blast
  then show False by simp
qed

lemma strict_return [io_intros]: "strict (return x)"
  by (simp add: strict_def return_def)

lemma strict_raise [io_intros]: "strict (raise e)"
  by (auto simp: strict_def raise_def)

lemma strict_page_call [io_intros]: "strict (page_call c)"
  by (auto simp: strict_def page_call_def raised_def split: outcome.splits)

lemma strict_bind [io_intros]:
  assumes "strict m" and "\<And>x. strict (f x)"
  shows "strict (bind m f)"
  unfolding strict_def
proof (intro allI impI)
  fix pg tr r tr'
  assume run: "bind m f pg tr = (r, tr')" and clean: "\<not> raised tr" and bad: "raised tr'"
  obtain r1 tr1 where m: "m pg tr = (r1, tr1)" by (cases "m pg tr")
  show "isl r"
  proof (cases r1)
    case (Inl e)
    with run m show ?thesis by (auto simp: bind_def)
  next
    case (Inr x)
    with run m have f: "f x pg tr1 = (r, tr')" by (simp add: bind_def)
    from assms(1) m clean Inr have "\<not> raised tr1" by (auto dest: strict_clean)
    with assms(2) [of x] f bad show ?thesis by (auto simp: strict_def)
  qed
qed

lemma strict_seq [io_intros]: "strict m \<Longrightarrow> strict k \<Longrightarrow> strict (seq m k)"
  by (simp add: seq_def strict_bind)

lemma strict_act [io_intros]: "strict (act c)"
  by (simp add: act_def strict_bind strict_page_call strict_return)

lemma strict_is_visible [io_intros]: "strict (is_visible l)"
  by (simp add: is_visible_def strict_bind strict_page_call strict_return)

lemma strict_read_text [io_intros]: "strict (read_text c)"
  by (simp add: read_text_def strict_bind strict_page_call strict_return)

lemma strict_only_if [io_intros]: "strict m \<Longrightarrow> strict (only_if c m)"
  by (simp add: only_if_def strict_return)

lemma strict_if [io_intros]: "(c \<Longrightarrow> strict a) \<Longrightarrow> (\<not> c \<Longrightarrow> strict b) \<Longrightarrow> strict (if c then a else b)"
  by simp

lemma strict_select_account: "strict (select_account account)"
  unfolding select_account_def by (intro io_intros)

lemma strict_enter_symbol: "strict (enter_symbol stock)"
  unfolding enter_symbol_def by (intro io_intros) (simp add: io_intros split: option.split)

lemma strict_expand_ticket: "strict expand_ticket"
  unfolding expand_ticket_def by (intro io_intros)

lemma strict_extended_hours: "strict extended_hours"
  unfolding extended_hours_def by (intro io_intros)

lemma strict_select_action: "strict (select_action action)"
  unfolding select_action_def by (intro io_intros)

lemma strict_enter_quantity: "strict (enter_quantity quantity)"
  unfolding enter_quantity_def by (intro io_intros)

lemma strict_order_type: "strict (order_type last_price extended precision action)"
  unfolding order_type_def Let_def
  by (cases "float_of_str last_price") (auto intro!: io_intros)

lemma failing_return: "failing (return x)"
  by (simp add: failing_def return_def)

lemma failing_strict_bind:
  assumes "strict m" and "\<And>x. failing (f x)"
  shows "failing (bind m f)"
  unfolding failing_def
proof (intro allI impI)
  fix pg tr r tr'
  assume run: "bind m f pg tr = (r, tr')" and clean: "\<not> raised tr" and bad: "raised tr'"
  obtain r1 tr1 where m: "m pg tr = (r1, tr1)" by (cases "m pg tr")
  show "failure r"
  proof (cases r1)
    case (Inl e)
    with run m show ?thesis by (auto simp: bind_def failure_def)
  next
    case (Inr x)
    with run m have f: "f x pg tr1 = (r, tr')" by (simp add: bind_def)
    from assms(1) m clean Inr have "\<not> raised tr1" by (auto dest: strict_clean)
    with assms(2) [of x] f bad show ?thesis by (auto simp: failing_def)
  qed
qed

lemma failing_strict_seq: "strict m \<Longrightarrow> failing k \<Longrightarrow> failing (seq m k)"
  by (simp add: seq_def failing_strict_bind)

lemma failing_try:
  assumes "strict m" and "\<And>e h. handler e = Some h \<Longrightarrow> always_fails h" and "\<And>x. failing (k x)"
  shows "failing (try_except_else m handler k)"
  unfolding failing_def
proof (intro allI impI)
  fix pg tr r tr'
  assume run: "try_except_else m handler k pg tr = (r, tr')" and clean: "\<not> raised tr"
    and bad: "raised tr'"
  obtain r1 tr1 where m: "m pg tr = (r1, tr1)" by (cases "m pg tr")
  show "failure r"
  proof (cases r1)
    case (Inl e)
    show ?thesis
    proof (cases "handler e")
      case None
      with run m Inl show ?thesis by (auto simp: try_except_else_def failure_def)
    next
      case (Some h)
      with run m Inl have "h pg tr1 = (r, tr')" by (simp add: try_except_else_def)
      with assms(2) [OF Some] show ?thesis by (auto simp: always_fails_def)
    qed
  next
    case (Inr x)
    with run m have f: "k x pg tr1 = (r, tr')" by (simp add: try_except_else_def)
    from assms(1) m clean Inr have "\<not> raised tr1" by (auto dest: strict_clean)
    with assms(3) [of x] f bad show ?thesis by (auto simp: failing_def)
  qed
qed

lemma always_fails_return: "\<not> fst x \<Longrightarrow> snd x \<noteq> MNone \<Longrightarrow> always_fails (return x)"
  by (simp add: always_fails_def return_def failure_def)

lemma always_fails_raise: "always_fails (raise e)"
  by (simp add: always_fails_def raise_def failure_def)

lemma always_fails_bind:
  assumes "\<And>x. always_fails (f x)"
  shows "always_fails (bind m f)"
  unfolding always_fails_def
proof (intro allI impI)
  fix pg tr r tr'
  assume run: "bind m f pg tr = (r, tr')"
  obtain r1 tr1 where m: "m pg tr = (r1, tr1)" by (cases "m pg tr")
  show "failure r"
  proof (cases r1)
    case (Inl e)
    with run m show ?thesis by (auto simp: bind_def failure_def)
  next
    case (Inr x)
    with run m have "f x pg tr1 = (r, tr')" by (simp add: bind_def)
    with assms [of x] show ?thesis by (auto simp: always_fails_def)
  qed
qed

lemma always_fails_error_report: "always_fails error_report"
  unfolding error_report_def Let_def
  by (intro always_fails_bind)
     (auto intro!: always_fails_return always_fails_raise split: option.split)

lemma failing_place_order: "failing (place_order dry)"
  unfolding place_order_def
  by (auto intro!: failing_return failing_strict_seq failing_try strict_act always_fails_return
      simp: on_timeout_def split: pyexn.splits)

lemma failing_check_preview: "failing (check_preview stock quantity action account dry)"
  unfolding check_preview_def
  by (intro failing_strict_bind strict_is_visible)
     (auto intro!: failing_return failing_strict_bind strict_is_visible failing_place_order)

lemma failing_preview: "failing (preview stock quantity action account dry)"
  unfolding preview_def
  by (auto intro!: failing_strict_seq failing_try strict_act failing_check_preview
      simp: on_timeout_def always_fails_error_report split: pyexn.splits)

lemma failing_transaction_try: "failing (transaction_try stock quantity action account dry)"
  unfolding transaction_try_def
  by (intro failing_strict_seq failing_strict_bind strict_select_account strict_enter_symbol
      strict_expand_ticket strict_extended_hours strict_select_action strict_enter_quantity
      strict_order_type failing_preview)

definition except_message :: "pyexn \<Rightarrow> message" where
  "except_message e =
     (case e of
        PlaywrightTimeoutError toe \<Rightarrow> MStr (''Driver timed out. Order not completed: '' @ toe)
      | _ \<Rightarrow> MExn e)"

text \<open>
  C6. For every ticker, quantity, action, account and dry flag and every behaviour of the
  page, \<open>transaction\<close> returns a pair of a flag and a message. When some page call of the
  run raised, the flag is False and the message is not None. When the body of the \<open>try\<close>
  ends with an exception, whether of the page or of Python (a last price that is None or
  not a number), the flag is False and the message is the text
  \<open>Driver timed out. Order not completed: \<close> followed by the text of the exception
  for a Playwright timeout, and the exception itself for any other.
\<close>

theorem transaction_never_raises:
  "\<exists>ok msg tr. transaction pg stock quantity action account dry = ((ok, msg), tr)
      \<and> (raised tr \<longrightarrow> \<not> ok \<and> msg \<noteq> MNone)
      \<and> (\<forall>e. fst (transaction_try stock quantity action account dry pg []) = Inl e \<longrightarrow>
            \<not> ok \<and> msg = except_message e)"
proof -
  obtain r tr where run: "transaction_try stock quantity action account dry pg [] = (r, tr)"
    by (cases "transaction_try stock quantity action account dry pg []")
  have clean: "\<not> raised []" by (simp add: raised_def)
  from failing_transaction_try run clean have f: "raised tr \<Longrightarrow> failure r"
    by (auto simp: failing_def)
  show ?thesis
  proof (cases r)
    case (Inl e)
    with run show ?thesis
      by (cases e) (auto simp: transaction_def except_message_def)
  next
    case (Inr x)
    with run f show ?thesis
      by (cases x) (auto simp: transaction_def failure_def)
  qed
qed

subsection \<open>The order type\<close>

text \<open>
  What the order type depends on is read off the trace: the text of the last price, whether
  \<open>Extended hours trading\<close> was visible, and that the quantity was entered, which is the
  last call before the decision. Which order type was chosen shows in the trace as well:
  the click on \<open>#order-type-container-id\<close> opens the market branch, the click on the
  order type dropdown opens the limit branch, which ends by filling \<open>Limit price\<close>. These
  calls are \<open>decisive\<close>; \<open>proj\<close> keeps them and drops the rest, and a computation
  \<open>avoids\<close> them when it makes none.
\<close>

lemmas io_defs = return_def raise_def bind_def seq_def try_except_else_def on_timeout_def
  on_exception_def page_call_def act_def is_visible_def read_text_def only_if_def

definition decisive :: "call \<Rightarrow> bool" where
  "decisive c =
     (case c of
        QueryTextContent s \<Rightarrow> s = ''#eq-ticket__last-price > span.last-price''
      | IsVisible l \<Rightarrow> l = ByText (Str ''Extended hours trading'') False
      | Fill l x \<Rightarrow> l = ByText (Str ''Quantity'') True \<or> l = ByLabel ''Limit price''
      | Click l \<Rightarrow> l = Css ''#order-type-container-id'' \<or> l = ByText (Str ''Limit price'') True
      | QueryClick s \<Rightarrow> s = ''#dest-dropdownlist-button-ordertype > span:nth-child(1)''
      | _ \<Rightarrow> False)"

definition proj :: "trace \<Rightarrow> trace" where
  "proj tr = filter (\<lambda>co. decisive (fst co)) tr"

definition avoids :: "'a io \<Rightarrow> bool" where
  "avoids m = (\<forall>pg tr r tr'. m pg tr = (r, tr') \<longrightarrow> proj tr' = proj tr)"

lemma avoids_return: "avoids (return x)"
  by (simp add: avoids_def return_def)

lemma avoids_raise: "avoids (raise e)"
  by (simp add: avoids_def raise_def)

lemma avoids_page_call: "\<not> decisive c \<Longrightarrow> avoids (page_call c)"
  by (auto simp: avoids_def page_call_def proj_def split: outcome.splits)

lemma avoids_bind:
  assumes "avoids m" and "\<And>x. avoids (f x)"
  shows "avoids (bind m f)"
  unfolding avoids_def
proof (intro allI impI)
  fix pg tr r tr'
  assume run: "bind m f pg tr = (r, tr')"
  obtain r1 tr1 where m: "m pg tr = (r1, tr1)" by (cases "m pg tr")
  with assms(1) have p1: "proj tr1 = proj tr" by (auto simp: avoids_def)
  show "proj tr' = proj tr"
  proof (cases r1)
    case (Inl e)
    with run m p1 show ?thesis by (auto simp: bind_def)
  next
    case (Inr x)
    with run m have "f x pg tr1 = (r, tr')" by (simp add: bind_def)
    with assms(2) [of x] p1 show ?thesis by (auto simp: avoids_def)
  qed
qed

lemma avoids_seq: "avoids m \<Longrightarrow> avoids k \<Longrightarrow> avoids (seq m k)"
  by (simp add: seq_def avoids_bind)

lemma avoids_act: "\<not> decisive c \<Longrightarrow> avoids (act c)"
  by (simp add: act_def avoids_bind avoids_page_call avoids_return)

lemma avoids_is_visible: "\<not> decisive (IsVisible l) \<Longrightarrow> avoids (is_visible l)"
  by (simp add: is_visible_def avoids_bind avoids_page_call avoids_return)

lemma avoids_read_text: "\<not> decisive c \<Longrightarrow> avoids (read_text c)"
  by (simp add: read_text_def avoids_bind avoids_page_call avoids_return)

lemma avoids_only_if: "avoids m \<Longrightarrow> avoids (only_if c m)"
  by (simp add: only_if_def avoids_return)

lemma avoids_try:
  assumes "avoids m" and "\<And>e h. handler e = Some h \<Longrightarrow> avoids h" and "\<And>x. avoids (k x)"
  shows "avoids (try_except_else m handler k)"
  unfolding avoids_def
proof (intro allI impI)
  fix pg tr r tr'
  assume run: "try_except_else m handler k pg tr = (r, tr')"
  obtain r1 tr1 where m: "m pg tr = (r1, tr1)" by (cases "m pg tr")
  with assms(1) have p1: "proj tr1 = proj tr" by (auto simp: avoids_def)
  show "proj tr' = proj tr"
  proof (cases r1)
    case (Inl e)
    show ?thesis
    proof (cases "handler e")
      case None
      with run m Inl p1 show ?thesis by (auto simp: try_except_else_def)
    next
      case (Some h)
      with run m Inl have "h pg tr1 = (r, tr')" by (simp add: try_except_else_def)
      with assms(2) [OF Some] p1 show ?thesis by (auto simp: avoids_def)
    qed
  next
    case (Inr x)
    with run m have "k x pg tr1 = (r, tr')" by (simp add: try_except_else_def)
    with assms(3) [of x] p1 show ?thesis by (auto simp: avoids_def)
  qed
qed

lemmas avoids_intros = avoids_return avoids_raise avoids_bind avoids_seq avoids_act
  avoids_is_visible avoids_read_text avoids_only_if

lemma avoids_select_account: "avoids (select_account account)"
  unfolding select_account_def
  by (intro avoids_intros) (simp_all add: decisive_def)

lemma avoids_expand_ticket: "avoids expand_ticket"
  unfolding expand_ticket_def
  by (intro avoids_intros) (simp_all add: decisive_def)

lemma avoids_select_action: "avoids (select_action action)"
  unfolding select_action_def
  by (intro avoids_intros) (simp_all add: decisive_def)

lemma avoids_close_dialog: "avoids (close_dialog m)"
  unfolding close_dialog_def
  by (intro avoids_try avoids_intros) (simp_all add: decisive_def on_exception_def avoids_return)

lemma avoids_error_report: "avoids error_report"
  unfolding error_report_def Let_def
  by (intro avoids_bind avoids_try avoids_read_text avoids_close_dialog)
     (auto simp: decisive_def on_exception_def avoids_return avoids_raise
        intro!: avoids_try avoids_read_text avoids_close_dialog split: option.split)

lemma avoids_place_order: "avoids (place_order dry)"
  unfolding place_order_def
  by (auto intro!: avoids_intros avoids_try simp: decisive_def on_timeout_def split: pyexn.splits)

lemma avoids_check_preview: "avoids (check_preview stock quantity action account dry)"
  unfolding check_preview_def
  by (intro avoids_bind avoids_is_visible)
     (auto simp: decisive_def intro!: avoids_return avoids_bind avoids_is_visible avoids_place_order)

lemma avoids_preview: "avoids (preview stock quantity action account dry)"
  unfolding preview_def
  by (auto intro!: avoids_seq avoids_act avoids_try avoids_check_preview
      simp: decisive_def on_timeout_def avoids_error_report split: pyexn.splits)

text \<open>The decisive calls by name, and the limit price of the source.\<close>

definition read_last_price :: call where
  "read_last_price = QueryTextContent ''#eq-ticket__last-price > span.last-price''"

definition extended_hours_shown :: call where
  "extended_hours_shown = IsVisible (ByText (Str ''Extended hours trading'') False)"

definition fill_quantity :: "pyfloat \<Rightarrow> call" where
  "fill_quantity quantity = Fill (ByText (Str ''Quantity'') True) (StrFloat [] quantity)"

definition open_market :: call where
  "open_market = Click (Css ''#order-type-container-id'')"

definition open_limit :: call where
  "open_limit = QueryClick ''#dest-dropdownlist-button-ordertype > span:nth-child(1)''"

definition fill_limit_price :: "pyfloat \<Rightarrow> call" where
  "fill_limit_price wanted_price = Fill (ByLabel ''Limit price'') (StrFloat [] wanted_price)"

definition limit_price :: "pyfloat \<Rightarrow> nat \<Rightarrow> string \<Rightarrow> pyfloat" where
  "limit_price p precision action =
     (if lower action = ''buy''
      then py_round (fadd p (if fgt p (Fin (1 / 10)) then Fin (1 / 100) else Fin (1 / 10000))) precision
      else py_round (fsub p (if fgt p (Fin (1 / 10)) then Fin (1 / 100) else Fin (1 / 10000))) precision)"

text \<open>
  What the order type step adds to the trace, for a last price \<open>p\<close>; \<open>finished\<close> says
  that the step ended without an exception.
\<close>

definition order_type_calls :: "pyfloat \<Rightarrow> bool \<Rightarrow> nat \<Rightarrow> string \<Rightarrow> bool \<Rightarrow> trace \<Rightarrow> bool" where
  "order_type_calls p extended precision action finished ot =
     (if flt p (Fin 1) \<or> extended then
        open_limit \<in> fst ` set ot \<and> open_market \<notin> fst ` set ot
        \<and> (\<forall>x. Fill (ByLabel ''Limit price'') x \<in> fst ` set ot \<longrightarrow>
               x = StrFloat [] (limit_price p precision action))
        \<and> (finished \<longrightarrow> fill_limit_price (limit_price p precision action) \<in> fst ` set ot)
      else
        open_market \<in> fst ` set ot \<and> open_limit \<notin> fst ` set ot
        \<and> (\<forall>x. Fill (ByLabel ''Limit price'') x \<notin> fst ` set ot))"

lemma proj_snoc: "proj (tr @ [(c, out)]) = proj tr @ (if decisive c then [(c, out)] else [])"
  by (simp add: proj_def)

lemma proj_append: "proj (tr @ ext) = proj tr @ proj ext"
  by (simp add: proj_def)

lemma enter_symbol_proj:
  assumes "enter_symbol stock pg tr = (r, tr')"
  shows "(isl r \<and> proj tr' = proj tr) \<or>
         (\<exists>out. proj tr' = proj tr @ [(read_last_price, out)]
            \<and> (\<forall>lp. r = Inr lp \<longrightarrow> (\<exists>b t. out = Returns b (Some t) \<and> lp = replace t ''$'' [])))"
  using assms unfolding enter_symbol_def io_defs read_last_price_def
  by (auto simp: proj_def decisive_def split: outcome.splits option.splits)

lemma extended_hours_proj:
  assumes "extended_hours pg tr = (r, tr')"
  shows "\<exists>out. proj tr' = proj tr @ [(extended_hours_shown, out)]
           \<and> (\<forall>ext prec. r = Inr (ext, prec) \<longrightarrow>
                 (\<exists>t. out = Returns ext t) \<and> prec = (if ext then 2 else 3))"
  using assms unfolding extended_hours_def io_defs extended_hours_shown_def
  by (auto simp: proj_def decisive_def split: outcome.splits if_splits)

lemma enter_quantity_proj:
  assumes "enter_quantity quantity pg tr = (r, tr')"
  shows "(isl r \<and> proj tr' = proj tr) \<or>
         (\<exists>out. proj tr' = proj tr @ [(fill_quantity quantity, out)]
            \<and> (isl r \<longrightarrow> (\<exists>e. out = Raises e)))"
  using assms unfolding enter_quantity_def io_defs fill_quantity_def
  by (auto simp: proj_def decisive_def split: outcome.splits)

lemma order_type_ext:
  assumes "order_type lp extended precision action pg tr = (r, tr')"
    and "float_of_str lp = Inr p"
  shows "\<exists>ot. tr' = tr @ ot \<and> order_type_calls p extended precision action (\<not> isl r) ot"
proof (cases "flt p (Fin 1) \<or> extended")
  case True
  with assms show ?thesis
    unfolding order_type_def io_defs order_type_calls_def Let_def
      open_limit_def open_market_def fill_limit_price_def limit_price_def
    by (simp split: outcome.splits) auto
next
  case False
  with assms show ?thesis
    unfolding order_type_def io_defs order_type_calls_def Let_def
      open_limit_def open_market_def fill_limit_price_def limit_price_def
    by (simp split: outcome.splits) auto
qed

lemma order_type_footprint:
  assumes "order_type lp extended precision action pg tr = (r, tr')"
  shows "\<exists>ot. tr' = tr @ ot \<and> read_last_price \<notin> fst ` set ot
           \<and> extended_hours_shown \<notin> fst ` set ot"
  using assms unfolding order_type_def io_defs Let_def read_last_price_def extended_hours_shown_def
  by (cases "float_of_str lp") (auto split: outcome.splits if_splits)

lemma order_type_calls_weaken:
  "order_type_calls p extended precision action f1 ot \<Longrightarrow> (f2 \<longrightarrow> f1)
     \<Longrightarrow> order_type_calls p extended precision action f2 ot"
  by (auto simp: order_type_calls_def)

lemma bind_cases:
  assumes "bind m f pg tr = (r, tr')"
  obtains (raised) e where "m pg tr = (Inl e, tr')" "r = Inl e"
    | (returned) x tr1 where "m pg tr = (Inr x, tr1)" "f x pg tr1 = (r, tr')"
proof (cases "m pg tr")
  case (Pair r1 tr1)
  with assms show ?thesis
    by (cases r1) (auto simp: bind_def intro: raised returned)
qed

lemma seq_cases:
  assumes "seq m k pg tr = (r, tr')"
  obtains (raised) e where "m pg tr = (Inl e, tr')" "r = Inl e"
    | (returned) x tr1 where "m pg tr = (Inr x, tr1)" "k pg tr1 = (r, tr')"
  using assms unfolding seq_def by (rule bind_cases)

lemma avoidsD: "avoids m \<Longrightarrow> m pg tr = (r, tr') \<Longrightarrow> proj tr' = proj tr"
  by (auto simp: avoids_def)

lemma decisive_mem: "decisive c \<Longrightarrow> c \<in> fst ` set tr \<longleftrightarrow> c \<in> fst ` set (proj tr)"
  by (auto simp: proj_def intro: rev_image_eqI)

text \<open>
  A run that entered the quantity made the decisive calls of the three readings and of the
  order type step, and no other; the order type step was run on the last price and the
  extended-hours flag that the trace shows.
\<close>

lemma transaction_decision:
  assumes run: "transaction_try stock quantity action account dry pg [] = (r, tr)"
    and qty: "(fill_quantity quantity, Returns b1 t1) \<in> set tr"
    and lp: "(read_last_price, Returns b2 (Some text)) \<in> set tr"
    and ext: "(extended_hours_shown, Returns extended t3) \<in> set tr"
    and price: "float_of_str (replace text ''$'' []) = Inr p"
  shows "\<exists>ot. (\<forall>c. decisive c \<longrightarrow>
                 (c \<in> fst ` set tr \<longleftrightarrow>
                    c \<in> {read_last_price, extended_hours_shown, fill_quantity quantity}
                    \<or> c \<in> fst ` set ot))
            \<and> order_type_calls p extended (if extended then 2 else 3) action (\<not> isl r) ot"
proof -
  have dq: "decisive (fill_quantity quantity)" and dl: "decisive read_last_price"
    and de: "decisive extended_hours_shown"
    by (simp_all add: decisive_def fill_quantity_def read_last_price_def extended_hours_shown_def)
  have neq: "read_last_price \<noteq> fill_quantity quantity"
    "extended_hours_shown \<noteq> fill_quantity quantity" "read_last_price \<noteq> extended_hours_shown"
    by (simp_all add: fill_quantity_def read_last_price_def extended_hours_shown_def)
  have K: "(fill_quantity quantity, Returns b1 t1) \<in> set (proj tr)"
    using qty dq by (simp add: proj_def)
  have L: "(read_last_price, Returns b2 (Some text)) \<in> set (proj tr)"
    using lp dl by (simp add: proj_def)
  have E: "(extended_hours_shown, Returns extended t3) \<in> set (proj tr)"
    using ext de by (simp add: proj_def)
  from run [unfolded transaction_try_def] show ?thesis
  proof (cases rule: seq_cases)
    case (raised e)
    from avoidsD [OF avoids_select_account raised(1)] K show ?thesis by (simp add: proj_def)
  next
    case (returned x0 tr0)
    from avoidsD [OF avoids_select_account returned(1)] have p0: "proj tr0 = []"
      by (simp add: proj_def)
    from returned(2) show ?thesis
    proof (cases rule: bind_cases)
      case (raised e)
      from enter_symbol_proj [OF raised(1)] p0 K neq show ?thesis by auto
    next
      case (returned last_price tr1)
      from enter_symbol_proj [OF returned(1)] p0
      obtain b t where p1: "proj tr1 = [(read_last_price, Returns b (Some t))]"
        and lpv: "last_price = replace t ''$'' []"
        by auto
      from returned(2) show ?thesis
      proof (cases rule: seq_cases)
        case (raised e)
        from avoidsD [OF avoids_expand_ticket raised(1)] p1 K neq show ?thesis by auto
      next
        case (returned x2 tr2)
        from avoidsD [OF avoids_expand_ticket returned(1)] p1
        have p2: "proj tr2 = [(read_last_price, Returns b (Some t))]" by simp
        from returned(2) show ?thesis
        proof (cases rule: bind_cases)
          case (raised e)
          from extended_hours_proj [OF raised(1)] p2 K neq show ?thesis by auto
        next
          case (returned ep tr3)
          from extended_hours_proj [OF returned(1)] p2
          obtain t' where p3: "proj tr3 = [(read_last_price, Returns b (Some t)),
                (extended_hours_shown, Returns (fst ep) t')]"
            and prec: "snd ep = (if fst ep then 2 else 3)"
            by (cases ep) auto
          from returned(2) show ?thesis
          proof (cases rule: seq_cases)
            case (raised e)
            from avoidsD [OF avoids_select_action raised(1)] p3 K neq show ?thesis by auto
          next
            case (returned x4 tr4)
            from avoidsD [OF avoids_select_action returned(1)] p3
            have p4: "proj tr4 = [(read_last_price, Returns b (Some t)),
                (extended_hours_shown, Returns (fst ep) t')]" by simp
            from returned(2) show ?thesis
            proof (cases rule: seq_cases)
              case (raised e)
              from enter_quantity_proj [OF raised(1)] p4 K neq raised(2) show ?thesis by auto
            next
              case (returned x5 tr5)
              from enter_quantity_proj [OF returned(1)] p4
              obtain out where p5: "proj tr5 = [(read_last_price, Returns b (Some t)),
                (extended_hours_shown, Returns (fst ep) t'), (fill_quantity quantity, out)]"
                by auto
              have final: ?thesis
                if o6: "order_type last_price (fst ep) (snd ep) action pg tr5 = (r6, tr6)"
                  and pt: "proj tr = proj tr6" and fin: "isl r6 \<longrightarrow> isl r" for r6 tr6
              proof -
                from order_type_footprint [OF o6] obtain ot where ot: "tr6 = tr5 @ ot"
                  and fp: "read_last_price \<notin> fst ` set ot" "extended_hours_shown \<notin> fst ` set ot"
                  by blast
                have pt': "proj tr = proj tr5 @ proj ot"
                  using pt ot by (simp add: proj_append)
                have nl: "(read_last_price, Returns b2 (Some text)) \<notin> set (proj ot)"
                  using fp(1) by (force simp: proj_def)
                have ne: "(extended_hours_shown, Returns extended t3) \<notin> set (proj ot)"
                  using fp(2) by (force simp: proj_def)
                from L nl pt' p5 neq have "t = text" by auto
                with lpv price have lpp: "float_of_str last_price = Inr p" by simp
                from E ne pt' p5 neq have ex: "fst ep = extended" by auto
                from order_type_ext [OF o6 lpp] ot
                have "order_type_calls p (fst ep) (snd ep) action (\<not> isl r6) ot" by auto
                then have oc: "order_type_calls p extended (if extended then 2 else 3) action (\<not> isl r) ot"
                  using fin ex prec by (auto elim!: order_type_calls_weaken)
                have "c \<in> fst ` set tr \<longleftrightarrow>
                    c \<in> {read_last_price, extended_hours_shown, fill_quantity quantity}
                    \<or> c \<in> fst ` set ot" if "decisive c" for c
                proof -
                  have "c \<in> fst ` set tr \<longleftrightarrow> c \<in> fst ` set (proj tr5) \<or> c \<in> fst ` set (proj ot)"
                    using decisive_mem [OF that, of tr] pt' by auto
                  also have "c \<in> fst ` set (proj ot) \<longleftrightarrow> c \<in> fst ` set ot"
                    using decisive_mem [OF that, of ot] by simp
                  finally show ?thesis using p5 by auto
                qed
                with oc show ?thesis by blast
              qed
              from returned(2) show ?thesis
              proof (cases rule: seq_cases)
                case (raised e)
                from final [OF raised(1)] raised(2) show ?thesis by simp
              next
                case (returned x6 tr6)
                from final [OF returned(1)] avoidsD [OF avoids_preview returned(2)]
                show ?thesis by simp
              qed
            qed
          qed
        qed
      qed
    qed
  qed
qed

lemmas tx_defs = transaction_def transaction_try_def select_account_def enter_symbol_def
  expand_ticket_def extended_hours_def select_action_def enter_quantity_def order_type_def
  preview_def check_preview_def place_order_def error_report_def close_dialog_def

lemmas str_defs = upper_def upper_char_def title_def is_alpha_def char_of_def bit_0
  order_entry_url_def

lemma transaction_run:
  assumes "transaction pg stock quantity action account dry = (res, tr)"
  obtains r where "transaction_try stock quantity action account dry pg [] = (r, tr)"
    and "fst res \<longrightarrow> \<not> isl r"
proof (cases "transaction_try stock quantity action account dry pg []")
  case (Pair r tr0)
  with assms have "tr0 = tr" and "fst res \<longrightarrow> \<not> isl r"
    by (auto simp: transaction_def split: sum.splits pyexn.splits)
  with Pair that show ?thesis by blast
qed

text \<open>
  C1. In any run of \<open>transaction\<close> that entered the quantity, with the last price \<open>p\<close>
  read from the quote panel and \<open>extended\<close> telling whether \<open>Extended hours trading\<close>
  was visible: if \<open>p \<ge> 1\<close> and not \<open>extended\<close>, the market order type is opened and
  neither the limit dropdown is clicked nor a limit price filled; if \<open>p < 1\<close> or
  \<open>extended\<close>, the limit dropdown is clicked, the market one is not, and any limit price
  filled in is a value rounded to 2 decimals when \<open>extended\<close> and to 3 otherwise.
\<close>

theorem transaction_order_type:
  assumes "transaction pg stock quantity action account dry = (res, tr)"
    and "(fill_quantity quantity, Returns b1 t1) \<in> set tr"
    and "(read_last_price, Returns b2 (Some text)) \<in> set tr"
    and "(extended_hours_shown, Returns extended t3) \<in> set tr"
    and "float_of_str (replace text ''$'' []) = Inr p"
  shows "(fge p (Fin 1) \<and> \<not> extended \<longrightarrow>
            open_market \<in> fst ` set tr \<and> open_limit \<notin> fst ` set tr
            \<and> (\<forall>x. Fill (ByLabel ''Limit price'') x \<notin> fst ` set tr))
       \<and> (flt p (Fin 1) \<or> extended \<longrightarrow>
            open_limit \<in> fst ` set tr \<and> open_market \<notin> fst ` set tr
            \<and> (\<forall>x. Fill (ByLabel ''Limit price'') x \<in> fst ` set tr \<longrightarrow>
                  (\<exists>w. x = StrFloat [] (py_round w (if extended then 2 else 3)))))"
proof -
  from assms(1) obtain r where run: "transaction_try stock quantity action account dry pg [] = (r, tr)"
    by (rule transaction_run)
  from transaction_decision [OF run assms(2-5)] obtain ot
    where mem: "\<And>c. decisive c \<Longrightarrow> c \<in> fst ` set tr \<longleftrightarrow>
        c \<in> {read_last_price, extended_hours_shown, fill_quantity quantity} \<or> c \<in> fst ` set ot"
      and oc: "order_type_calls p extended (if extended then 2 else 3) action (\<not> isl r) ot"
    by blast
  have m1: "open_market \<in> fst ` set tr \<longleftrightarrow> open_market \<in> fst ` set ot"
    using mem [of open_market]
    by (simp add: decisive_def open_market_def read_last_price_def extended_hours_shown_def
        fill_quantity_def)
  have m2: "open_limit \<in> fst ` set tr \<longleftrightarrow> open_limit \<in> fst ` set ot"
    using mem [of open_limit]
    by (simp add: decisive_def open_limit_def read_last_price_def extended_hours_shown_def
        fill_quantity_def)
  have m3: "Fill (ByLabel ''Limit price'') x \<in> fst ` set tr
      \<longleftrightarrow> Fill (ByLabel ''Limit price'') x \<in> fst ` set ot" for x
    using mem [of "Fill (ByLabel ''Limit price'') x"]
    by (simp add: decisive_def read_last_price_def extended_hours_shown_def fill_quantity_def)
  show ?thesis
    using oc unfolding order_type_calls_def m1 m2 m3 limit_price_def fge_def
    by (auto split: if_splits)
qed

text \<open>
  C2. In any run of \<open>transaction\<close> that entered the quantity and takes the limit branch
  (\<open>p < 1\<close> or \<open>extended\<close>): the only limit price ever filled in is the last price plus
  the offset when the action, in lower case, is \<open>buy\<close>, and the last price minus the offset
  for any other action, a sell among them, rounded to the precision in force; the offset is
  0.01 when the last price is greater than 0.1 and 0.0001 otherwise. A run that reports
  success did fill it in.
\<close>

theorem transaction_limit_price:
  assumes "transaction pg stock quantity action account dry = (res, tr)"
    and "(fill_quantity quantity, Returns b1 t1) \<in> set tr"
    and "(read_last_price, Returns b2 (Some text)) \<in> set tr"
    and "(extended_hours_shown, Returns extended t3) \<in> set tr"
    and "float_of_str (replace text ''$'' []) = Inr p"
    and "flt p (Fin 1) \<or> extended"
  shows "(\<forall>x. Fill (ByLabel ''Limit price'') x \<in> fst ` set tr \<longrightarrow>
            x = StrFloat []
                  (py_round
                     (if lower action = ''buy''
                      then fadd p (if fgt p (Fin (1 / 10)) then Fin (1 / 100) else Fin (1 / 10000))
                      else fsub p (if fgt p (Fin (1 / 10)) then Fin (1 / 100) else Fin (1 / 10000)))
                     (if extended then 2 else 3)))
       \<and> (fst res \<longrightarrow>
            fill_limit_price
              (py_round
                 (if lower action = ''buy''
                  then fadd p (if fgt p (Fin (1 / 10)) then Fin (1 / 100) else Fin (1 / 10000))
                  else fsub p (if fgt p (Fin (1 / 10)) then Fin (1 / 100) else Fin (1 / 10000)))
                 (if extended then 2 else 3)) \<in> fst ` set tr)"
proof -
  from assms(1) obtain r where run: "transaction_try stock quantity action account dry pg [] = (r, tr)"
    and ok: "fst res \<longrightarrow> \<not> isl r"
    by (rule transaction_run)
  from transaction_decision [OF run assms(2-5)] obtain ot
    where mem: "\<And>c. decisive c \<Longrightarrow> c \<in> fst ` set tr \<longleftrightarrow>
        c \<in> {read_last_price, extended_hours_shown, fill_quantity quantity} \<or> c \<in> fst ` set ot"
      and oc: "order_type_calls p extended (if extended then 2 else 3) action (\<not> isl r) ot"
    by blast
  have m3: "Fill (ByLabel ''Limit price'') x \<in> fst ` set tr
      \<longleftrightarrow> Fill (ByLabel ''Limit price'') x \<in> fst ` set ot" for x
    using mem [of "Fill (ByLabel ''Limit price'') x"]
    by (simp add: decisive_def read_last_price_def extended_hours_shown_def fill_quantity_def)
  have lim: "limit_price p n action =
      py_round (if lower action = ''buy''
                then fadd p (if fgt p (Fin (1 / 10)) then Fin (1 / 100) else Fin (1 / 10000))
                else fsub p (if fgt p (Fin (1 / 10)) then Fin (1 / 100) else Fin (1 / 10000))) n" for n
    by (simp add: limit_price_def)
  show ?thesis
    using oc assms(6) ok unfolding order_type_calls_def m3 lim fill_limit_price_def
    by auto
qed

text \<open>
  Two runs on a page where every call returns, the ticket is already expanded and extended
  hours are not offered: a dry-run buy at 120.00 and one at 0.50.
\<close>

lemma market_run:
  "transaction (\<lambda>k. Returns (k \<noteq> 11 \<and> k \<noteq> 12) (Some ''$120.00'')) ''NVDA'' (Fin 1) ''buy'' ''Z12345678'' True
   = ((True, MNone),
      [(WaitForLoadState ''load'', Returns True (Some ''$120.00'')),
       (GetUrl, Returns True (Some ''$120.00'')),
       (Goto order_entry_url, Returns True (Some ''$120.00'')),
       (QueryClick ''#dest-acct-dropdown'', Returns True (Some ''$120.00'')),
       (IsVisible (ByRoleHasText ''option'' ''Z12345678''), Returns True (Some ''$120.00'')),
       (Click (ByRoleHasText ''option'' ''Z12345678''), Returns True (Some ''$120.00'')),
       (Click (ByLabel ''Symbol''), Returns True (Some ''$120.00'')),
       (Fill (ByLabel ''Symbol'') (Str ''NVDA''), Returns True (Some ''$120.00'')),
       (Press (ByLabel ''Symbol'') ''Enter'', Returns True (Some ''$120.00'')),
       (WaitFor (Css ''#quote-panel'') (Some 2000) ''visible'', Returns True (Some ''$120.00'')),
       (QueryTextContent ''#eq-ticket__last-price > span.last-price'', Returns True (Some ''$120.00'')),
       (IsVisible (ByRole ''button'' ''View expanded ticket'' False), Returns False (Some ''$120.00'')),
       (IsVisible (ByText (Str ''Extended hours trading'') False), Returns False (Some ''$120.00'')),
       (QueryClick ''.eq-ticket-action-label'', Returns True (Some ''$120.00'')),
       (WaitFor (ByRole ''option'' ''Buy'' True) None ''visible'', Returns True (Some ''$120.00'')),
       (Click (ByRole ''option'' ''Buy'' True), Returns True (Some ''$120.00'')),
       (Click (CssHasText ''#eqt-mts-stock-quatity div'' ''Quantity''), Returns True (Some ''$120.00'')),
       (Fill (ByText (Str ''Quantity'') True) (StrFloat [] (Fin 1)), Returns True (Some ''$120.00'')),
       (Click (Css ''#order-type-container-id''), Returns True (Some ''$120.00'')),
       (Click (ByRole ''option'' ''Market'' True), Returns True (Some ''$120.00'')),
       (Click (ByRole ''button'' ''Preview order'' False), Returns True (Some ''$120.00'')),
       (WaitFor (ByRole ''button'' ''Place order'' False) (Some 5000) ''visible'', Returns True (Some ''$120.00'')),
       (IsVisible (CssHasText ''preview'' ''Z12345678''), Returns True (Some ''$120.00'')),
       (IsVisible (ByText (Str ''SymbolNVDA'') True), Returns True (Some ''$120.00'')),
       (IsVisible (ByText (Str ''ActionBuy'') False), Returns True (Some ''$120.00'')),
       (IsVisible (ByText (StrFloat ''Quantity'' (Fin 1)) False), Returns True (Some ''$120.00''))])"
  by (simp add: tx_defs io_defs str_defs float_of_str_simps replace_char)

lemma limit_run:
  "transaction (\<lambda>k. Returns (k \<noteq> 11 \<and> k \<noteq> 12) (Some ''$0.50'')) ''NVDA'' (Fin 1) ''buy'' ''Z12345678'' True
   = ((True, MNone),
      [(WaitForLoadState ''load'', Returns True (Some ''$0.50'')),
       (GetUrl, Returns True (Some ''$0.50'')),
       (Goto order_entry_url, Returns True (Some ''$0.50'')),
       (QueryClick ''#dest-acct-dropdown'', Returns True (Some ''$0.50'')),
       (IsVisible (ByRoleHasText ''option'' ''Z12345678''), Returns True (Some ''$0.50'')),
       (Click (ByRoleHasText ''option'' ''Z12345678''), Returns True (Some ''$0.50'')),
       (Click (ByLabel ''Symbol''), Returns True (Some ''$0.50'')),
       (Fill (ByLabel ''Symbol'') (Str ''NVDA''), Returns True (Some ''$0.50'')),
       (Press (ByLabel ''Symbol'') ''Enter'', Returns True (Some ''$0.50'')),
       (WaitFor (Css ''#quote-panel'') (Some 2000) ''visible'', Returns True (Some ''$0.50'')),
       (QueryTextContent ''#eq-ticket__last-price > span.last-price'', Returns True (Some ''$0.50'')),
       (IsVisible (ByRole ''button'' ''View expanded ticket'' False), Returns False (Some ''$0.50'')),
       (IsVisible (ByText (Str ''Extended hours trading'') False), Returns False (Some ''$0.50'')),
       (QueryClick ''.eq-ticket-action-label'', Returns True (Some ''$0.50'')),
       (WaitFor (ByRole ''option'' ''Buy'' True) None ''visible'', Returns True (Some ''$0.50'')),
       (Click (ByRole ''option'' ''Buy'' True), Returns True (Some ''$0.50'')),
       (Click (CssHasText ''#eqt-mts-stock-quatity div'' ''Quantity''), Returns True (Some ''$0.50'')),
       (Fill (ByText (Str ''Quantity'') True) (StrFloat [] (Fin 1)), Returns True (Some ''$0.50'')),
       (QueryClick ''#dest-dropdownlist-button-ordertype > span:nth-child(1)'', Returns True (Some ''$0.50'')),
       (Click (ByRole ''option'' ''Limit'' True), Returns True (Some ''$0.50'')),
       (Click (ByText (Str ''Limit price'') True), Returns True (Some ''$0.50'')),
       (Fill (ByLabel ''Limit price'') (StrFloat [] (Fin (51 / 100))), Returns True (Some ''$0.50'')),
       (Click (ByRole ''button'' ''Preview order'' False), Returns True (Some ''$0.50'')),
       (WaitFor (ByRole ''button'' ''Place order'' False) (Some 5000) ''visible'', Returns True (Some ''$0.50'')),
       (IsVisible (CssHasText ''preview'' ''Z12345678''), Returns True (Some ''$0.50'')),
       (IsVisible (ByText (Str ''SymbolNVDA'') True), Returns True (Some ''$0.50'')),
       (IsVisible (ByText (Str ''ActionBuy'') False), Returns True (Some ''$0.50'')),
       (IsVisible (ByText (StrFloat ''Quantity'' (Fin 1)) False), Returns True (Some ''$0.50''))])"
  by (simp add: tx_defs io_defs str_defs float_of_str_simps replace_char round_half_even_def fgt_def)

theorem transaction_order_type_witness:
  "(fill_quantity (Fin 1), Returns True (Some ''$120.00'')) \<in> set (snd (transaction (\<lambda>k. Returns (k \<noteq> 11 \<and> k \<noteq> 12) (Some ''$120.00'')) ''NVDA'' (Fin 1) ''buy'' ''Z12345678'' True))
   \<and> (read_last_price, Returns True (Some ''$120.00'')) \<in> set (snd (transaction (\<lambda>k. Returns (k \<noteq> 11 \<and> k \<noteq> 12) (Some ''$120.00'')) ''NVDA'' (Fin 1) ''buy'' ''Z12345678'' True))
   \<and> (extended_hours_shown, Returns False (Some ''$120.00'')) \<in> set (snd (transaction (\<lambda>k. Returns (k \<noteq> 11 \<and> k \<noteq> 12) (Some ''$120.00'')) ''NVDA'' (Fin 1) ''buy'' ''Z12345678'' True))
   \<and> float_of_str (replace ''$120.00'' ''$'' []) = Inr (Fin 120)
   \<and> fge (Fin 120) (Fin 1)
   \<and> open_market \<in> fst ` set (snd (transaction (\<lambda>k. Returns (k \<noteq> 11 \<and> k \<noteq> 12) (Some ''$120.00'')) ''NVDA'' (Fin 1) ''buy'' ''Z12345678'' True))
   \<and> open_limit \<notin> fst ` set (snd (transaction (\<lambda>k. Returns (k \<noteq> 11 \<and> k \<noteq> 12) (Some ''$120.00'')) ''NVDA'' (Fin 1) ''buy'' ''Z12345678'' True))
   \<and> (fill_quantity (Fin 1), Returns True (Some ''$0.50'')) \<in> set (snd (transaction (\<lambda>k. Returns (k \<noteq> 11 \<and> k \<noteq> 12) (Some ''$0.50'')) ''NVDA'' (Fin 1) ''buy'' ''Z12345678'' True))
   \<and> (read_last_price, Returns True (Some ''$0.50'')) \<in> set (snd (transaction (\<lambda>k. Returns (k \<noteq> 11 \<and> k \<noteq> 12) (Some ''$0.50'')) ''NVDA'' (Fin 1) ''buy'' ''Z12345678'' True))
   \<and> (extended_hours_shown, Returns False (Some ''$0.50'')) \<in> set (snd (transaction (\<lambda>k. Returns (k \<noteq> 11 \<and> k \<noteq> 12) (Some ''$0.50'')) ''NVDA'' (Fin 1) ''buy'' ''Z12345678'' True))
   \<and> float_of_str (replace ''$0.50'' ''$'' []) = Inr (Fin (1 / 2))
   \<and> flt (Fin (1 / 2)) (Fin 1)
   \<and> open_limit \<in> fst ` set (snd (transaction (\<lambda>k. Returns (k \<noteq> 11 \<and> k \<noteq> 12) (Some ''$0.50'')) ''NVDA'' (Fin 1) ''buy'' ''Z12345678'' True))
   \<and> open_market \<notin> fst ` set (snd (transaction (\<lambda>k. Returns (k \<noteq> 11 \<and> k \<noteq> 12) (Some ''$0.50'')) ''NVDA'' (Fin 1) ''buy'' ''Z12345678'' True))"
proof -
  have q1: "(fill_quantity (Fin 1), Returns True (Some ''$120.00'')) \<in> set (snd (transaction (\<lambda>k. Returns (k \<noteq> 11 \<and> k \<noteq> 12) (Some ''$120.00'')) ''NVDA'' (Fin 1) ''buy'' ''Z12345678'' True))"
    by (simp add: market_run fill_quantity_def)
  have l1: "(read_last_price, Returns True (Some ''$120.00'')) \<in> set (snd (transaction (\<lambda>k. Returns (k \<noteq> 11 \<and> k \<noteq> 12) (Some ''$120.00'')) ''NVDA'' (Fin 1) ''buy'' ''Z12345678'' True))"
    by (simp add: market_run read_last_price_def)
  have e1: "(extended_hours_shown, Returns False (Some ''$120.00'')) \<in> set (snd (transaction (\<lambda>k. Returns (k \<noteq> 11 \<and> k \<noteq> 12) (Some ''$120.00'')) ''NVDA'' (Fin 1) ''buy'' ''Z12345678'' True))"
    by (simp add: market_run extended_hours_shown_def)
  have f1: "float_of_str (replace ''$120.00'' ''$'' []) = Inr (Fin 120)"
    by (simp add: float_of_str_simps replace_char)
  have g1: "fge (Fin 120) (Fin 1)"
    by (simp add: fge_def)
  have q2: "(fill_quantity (Fin 1), Returns True (Some ''$0.50'')) \<in> set (snd (transaction (\<lambda>k. Returns (k \<noteq> 11 \<and> k \<noteq> 12) (Some ''$0.50'')) ''NVDA'' (Fin 1) ''buy'' ''Z12345678'' True))"
    by (simp add: limit_run fill_quantity_def)
  have l2: "(read_last_price, Returns True (Some ''$0.50'')) \<in> set (snd (transaction (\<lambda>k. Returns (k \<noteq> 11 \<and> k \<noteq> 12) (Some ''$0.50'')) ''NVDA'' (Fin 1) ''buy'' ''Z12345678'' True))"
    by (simp add: limit_run read_last_price_def)
  have e2: "(extended_hours_shown, Returns False (Some ''$0.50'')) \<in> set (snd (transaction (\<lambda>k. Returns (k \<noteq> 11 \<and> k \<noteq> 12) (Some ''$0.50'')) ''NVDA'' (Fin 1) ''buy'' ''Z12345678'' True))"
    by (simp add: limit_run extended_hours_shown_def)
  have f2: "float_of_str (replace ''$0.50'' ''$'' []) = Inr (Fin (1 / 2))"
    by (simp add: float_of_str_simps replace_char)
  have g2: "flt (Fin (1 / 2)) (Fin 1)"
    by simp
  show ?thesis
    using q1 l1 e1 f1 g1 q2 l2 e2 f2 g2
      transaction_order_type [OF surjective_pairing q1 l1 e1 f1]
      transaction_order_type [OF surjective_pairing q2 l2 e2 f2]
    by simp
qed

theorem transaction_limit_price_witness:
  "(fill_quantity (Fin 1), Returns True (Some ''$0.50'')) \<in> set (snd (transaction (\<lambda>k. Returns (k \<noteq> 11 \<and> k \<noteq> 12) (Some ''$0.50'')) ''NVDA'' (Fin 1) ''buy'' ''Z12345678'' True))
   \<and> (read_last_price, Returns True (Some ''$0.50'')) \<in> set (snd (transaction (\<lambda>k. Returns (k \<noteq> 11 \<and> k \<noteq> 12) (Some ''$0.50'')) ''NVDA'' (Fin 1) ''buy'' ''Z12345678'' True))
   \<and> (extended_hours_shown, Returns False (Some ''$0.50'')) \<in> set (snd (transaction (\<lambda>k. Returns (k \<noteq> 11 \<and> k \<noteq> 12) (Some ''$0.50'')) ''NVDA'' (Fin 1) ''buy'' ''Z12345678'' True))
   \<and> float_of_str (replace ''$0.50'' ''$'' []) = Inr (Fin (1 / 2))
   \<and> flt (Fin (1 / 2)) (Fin 1)
   \<and> fst (fst (transaction (\<lambda>k. Returns (k \<noteq> 11 \<and> k \<noteq> 12) (Some ''$0.50'')) ''NVDA'' (Fin 1) ''buy'' ''Z12345678'' True))
   \<and> fill_limit_price (Fin (51 / 100)) \<in> fst ` set (snd (transaction (\<lambda>k. Returns (k \<noteq> 11 \<and> k \<noteq> 12) (Some ''$0.50'')) ''NVDA'' (Fin 1) ''buy'' ''Z12345678'' True))"
proof -
  have q2: "(fill_quantity (Fin 1), Returns True (Some ''$0.50'')) \<in> set (snd (transaction (\<lambda>k. Returns (k \<noteq> 11 \<and> k \<noteq> 12) (Some ''$0.50'')) ''NVDA'' (Fin 1) ''buy'' ''Z12345678'' True))"
    by (simp add: limit_run fill_quantity_def)
  have l2: "(read_last_price, Returns True (Some ''$0.50'')) \<in> set (snd (transaction (\<lambda>k. Returns (k \<noteq> 11 \<and> k \<noteq> 12) (Some ''$0.50'')) ''NVDA'' (Fin 1) ''buy'' ''Z12345678'' True))"
    by (simp add: limit_run read_last_price_def)
  have e2: "(extended_hours_shown, Returns False (Some ''$0.50'')) \<in> set (snd (transaction (\<lambda>k. Returns (k \<noteq> 11 \<and> k \<noteq> 12) (Some ''$0.50'')) ''NVDA'' (Fin 1) ''buy'' ''Z12345678'' True))"
    by (simp add: limit_run extended_hours_shown_def)
  have f2: "float_of_str (replace ''$0.50'' ''$'' []) = Inr (Fin (1 / 2))"
    by (simp add: float_of_str_simps replace_char)
  have g2: "flt (Fin (1 / 2)) (Fin 1) \<or> False"
    by simp
  have ok: "fst (fst (transaction (\<lambda>k. Returns (k \<noteq> 11 \<and> k \<noteq> 12) (Some ''$0.50'')) ''NVDA'' (Fin 1) ''buy'' ''Z12345678'' True))"
    by (simp add: limit_run)
  have r: "py_round (fadd (Fin (1 / 2)) (Fin (1 / 100))) 3 = Fin (51 / 100)"
    by (simp add: round_half_even_def)
  show ?thesis
    using q2 l2 e2 f2 g2 ok r
      transaction_limit_price [OF surjective_pairing q2 l2 e2 f2 g2]
    by (simp add: fgt_def lower_def lower_char_def)
qed

theorem transaction_never_raises_witness:
  "raised [(WaitForLoadState ''load'', Raises (PlaywrightTimeoutError ''Timeout 30000ms exceeded''))]
   \<and> fst (transaction_try ''NVDA'' (Fin 1) ''buy'' ''Z12345678'' True (\<lambda>k. Raises (PlaywrightTimeoutError ''Timeout 30000ms exceeded'')) [])
       = Inl (PlaywrightTimeoutError ''Timeout 30000ms exceeded'')
   \<and> transaction (\<lambda>k. Raises (PlaywrightTimeoutError ''Timeout 30000ms exceeded'')) ''NVDA'' (Fin 1) ''buy'' ''Z12345678'' True
       = ((False, MStr ''Driver timed out. Order not completed: Timeout 30000ms exceeded''),
          [(WaitForLoadState ''load'', Raises (PlaywrightTimeoutError ''Timeout 30000ms exceeded''))])"
proof -
  have t: "transaction_try ''NVDA'' (Fin 1) ''buy'' ''Z12345678'' True (\<lambda>k. Raises (PlaywrightTimeoutError ''Timeout 30000ms exceeded'')) []
      = (Inl (PlaywrightTimeoutError ''Timeout 30000ms exceeded''),
         [(WaitForLoadState ''load'', Raises (PlaywrightTimeoutError ''Timeout 30000ms exceeded''))])"
    by (simp add: transaction_try_def select_account_def io_defs)
  have r: "raised [(WaitForLoadState ''load'', Raises (PlaywrightTimeoutError ''Timeout 30000ms exceeded''))]"
    by (simp add: raised_def)
  show ?thesis
    using t r transaction_never_raises [of "(\<lambda>k. Raises (PlaywrightTimeoutError ''Timeout 30000ms exceeded''))" "''NVDA''" "Fin 1" "''buy''" "''Z12345678''" True]
    by (auto simp: transaction_def except_message_def)
qed

end
